theory Spec2Isabelle
  imports Main
begin

section \<open>Data model of the room (BaseRoom.ts)\<close>

text \<open>
  The room of \<^verbatim>\<open>src/Hindenburg/src/worker/BaseRoom.ts\<close> is a mutable object; here it is a
  record that every operation takes and returns. JavaScript \<^verbatim>\<open>Map\<close> and \<^verbatim>\<open>Set\<close> iterate in
  insertion order, so they are association lists and lists. Three fields are observation
  logs and not fields of the class: \<open>sent\<close> lists the packets handed to
  \<^verbatim>\<open>connection.sendPacket\<close>, \<open>emitted\<close> the events given to \<^verbatim>\<open>emit\<close>, and \<open>handled\<close> the
  calls of \<^verbatim>\<open>component.HandleRpc\<close>. Asynchronous calls are run to completion in program
  order.
\<close>

definition Server :: int where
  "Server = 2 ^ 31 - 2"

definition Temp :: int where
  "Temp = 2 ^ 31 - 3"

datatype GameState = NotStarted | Started | Ended | Destroyed

datatype DisconnectReason =
  ExitGame | GameFull | GameStarted | GameNotFound | IncorrectVersion | Banned | Kicked
  | Custom | Destroy | Error | ServerRequest

datatype Privacy = Public | Private

datatype ComponentClass =
  PlayerControl | PlayerPhysics | CustomNetworkTransform | ShipStatusC | AirshipStatus
  | MeetingHudC | GameDataC | LobbyBehaviourC | VoteBanSystemC | UnknownComponent

datatype SpawnType =
  SpawnShipStatus | SpawnMeetingHud | SpawnLobbyBehaviour | SpawnGameData | SpawnPlayer
  | SpawnAirship | SpawnOther nat

record Connection =
  clientId :: int
  roundTripPing :: nat

record PlayerData =
  pd_clientId :: int
  playerId :: "nat option"
  isDead :: "bool option"

record Networkable =
  netId :: nat
  ownerId :: int
  spawnType :: SpawnType
  cls :: ComponentClass

record VoteState =
  hasVoted :: bool
  votedForId :: nat

datatype GameDataMsg =
  SceneChangeMessage int string
  | DataMessage nat "nat list"
  | DespawnMessage nat
  | SpawnMessage SpawnType int "nat list"
  | RpcGameData nat nat

datatype RootMsg =
  JoinGameMessage int int int
  | RemovePlayerMessage int int DisconnectReason int
  | GameDataMessage int "GameDataMsg list"
  | GameDataToMessage int int "GameDataMsg list"
  | JoinedGameMessage int int int "int list"
  | AlterGameMessage int nat
  | WaitForHostMessage int int
  | RemoveGameMessage DisconnectReason
  | StartGameMessage int
  | HostGameMessage int

text \<open>
  \<^verbatim>\<open>connection.getNextNonce()\<close> belongs to the Connection class, which is not part of the
  sources read here; a reliable packet is represented by its messages.
\<close>

datatype Packet = ReliablePacket "RootMsg list" | UnreliablePacket "RootMsg list"

datatype Event =
  ClientBroadcastEvent int
  | RoomSelectHostEvent bool bool int
  | RoomBeforeDestroyEvent DisconnectReason
  | RoomDestroyEvent
  | PlayerJoinEvent int
  | PlayerSetHostEvent int
  | PlayerLeaveEvent int

text \<open>
  The RPC payload classes come from the protocol library. An RPC message is an object with
  a tag and the properties its class declares; a type cast in the TypeScript source does
  not change the object, so reading a property the class does not declare gives
  \<^verbatim>\<open>undefined\<close>, here \<open>None\<close>.
\<close>

datatype RpcMessageTag =
  AddVote | CastVote | CheckColor | CheckName | ClearVote | Close | Exiled | MurderPlayer
  | PlayAnimation | ReportDeadBody | SetInfected | SetTasks | SetName | SetColor
  | StartMeeting | SyncSettings | VotingComplete | BootFromVent | ClimbLadder
  | CloseDoorsOfType | CompleteTask | EnterVent | ExitVent | RepairSystem | SendChat
  | SendChatNote | SendQuickChat | SetHat | SetPet | SetSkin | SetScanner
  | SetStartCounter | SnapTo | UpdateSystem | UsePlatform | OtherRpc nat

type_synonym GameSettings = "(string \<times> nat) list"

record BaseRpcMessage =
  messageTag :: RpcMessageTag
  votingid :: "nat option"
  suspectid :: "nat option"
  color :: "nat option"
  name :: "string option"
  hat :: "nat option"
  pet :: "nat option"
  skin :: "nat option"
  ventid :: "nat option"
  rpcSettings :: "GameSettings option"

record Room =
  code :: int
  hostId :: int
  serverAsHost :: bool
  state :: GameState
  privacy :: Privacy
  settings :: GameSettings
  actingHostsEnabled :: bool
  actingHostIds :: "int list"
  connections :: "(int \<times> Connection) list"
  waitingForHost :: "Connection list"
  actingHostWaitingFor :: "int list"
  players :: "(int \<times> PlayerData) list"
  netobjects :: "(nat \<times> Networkable) list"
  incr_netid :: nat
  stream :: "GameDataMsg list"
  voteStates :: "(nat \<times> VoteState) list"
  finishedActingHostTransactionRoutine :: bool
  playerJoinedFlag :: bool
  sent :: "(int \<times> Packet) list"
  emitted :: "Event list"
  handled :: "(nat \<times> BaseRpcMessage) list"

text \<open>
  Event listeners are plugins outside the room. What the room reads back from an emitted
  event is given by these functions: whether the event was canceled, and the altered
  value the event carries.
\<close>

record Listeners =
  onClientBroadcast :: "Connection \<Rightarrow> GameDataMsg list \<Rightarrow> RootMsg list \<Rightarrow> bool \<times> GameDataMsg list"
  onSelectHost :: "bool \<Rightarrow> bool \<Rightarrow> Connection \<Rightarrow> bool \<times> Connection"
  onBeforeDestroy :: "DisconnectReason \<Rightarrow> bool"

subsection \<open>Maps and sets with insertion order\<close>

definition map_get :: "('k \<times> 'v) list \<Rightarrow> 'k \<Rightarrow> 'v option" where
  "map_get m k = map_of m k"

definition map_delete :: "('k \<times> 'v) list \<Rightarrow> 'k \<Rightarrow> ('k \<times> 'v) list" where
  "map_delete m k = filter (\<lambda>kv. fst kv \<noteq> k) m"

fun map_set :: "('k \<times> 'v) list \<Rightarrow> 'k \<Rightarrow> 'v \<Rightarrow> ('k \<times> 'v) list" where
  "map_set [] k v = [(k, v)]"
| "map_set ((k', v') # m) k v = (if k' = k then (k, v) # m else (k', v') # map_set m k v)"

definition set_add :: "'a list \<Rightarrow> 'a \<Rightarrow> 'a list" where
  "set_add s x = (if x \<in> set s then s else s @ [x])"

definition set_delete :: "'a list \<Rightarrow> 'a \<Rightarrow> 'a list" where
  "set_delete s x = filter (\<lambda>y. y \<noteq> x) s"

subsection \<open>Sending and emitting\<close>

definition sendPacket :: "Room \<Rightarrow> Connection \<Rightarrow> Packet \<Rightarrow> Room" where
  "sendPacket r c p = r\<lparr>sent := sent r @ [(clientId c, p)]\<rparr>"

definition emit :: "Room \<Rightarrow> Event \<Rightarrow> Room" where
  "emit r e = r\<lparr>emitted := emitted r @ [e]\<rparr>"

definition mkPacket :: "bool \<Rightarrow> RootMsg list \<Rightarrow> Packet" where
  "mkPacket reliable messages =
     (if reliable then ReliablePacket messages else UnreliablePacket messages)"

subsection \<open>broadcastMessages\<close>

text \<open>
  The messages of one recipient (lines 899-910 and 946-962): the altered game data, when
  there is any, wrapped by \<open>wrap\<close>, followed by the payloads; nothing is sent when the
  event was canceled or the messages are empty.
\<close>

definition deliver ::
  "Listeners \<Rightarrow> Room \<Rightarrow> Connection \<Rightarrow> GameDataMsg list \<Rightarrow> RootMsg list
     \<Rightarrow> (GameDataMsg list \<Rightarrow> RootMsg) \<Rightarrow> bool \<Rightarrow> Room" where
  "deliver L r c gamedata payloads wrap reliable =
     (let r1 = emit r (ClientBroadcastEvent (clientId c));
          ev = onClientBroadcast L c gamedata payloads
      in if \<not> fst ev then
           (let messages = (if snd ev \<noteq> [] then [wrap (snd ev)] else []) @ payloads
            in if messages \<noteq> [] then sendPacket r1 c (mkPacket reliable messages) else r1)
         else r1)"

text \<open>The loop of lines 930-977 over the recipients.\<close>

fun broadcastLoop ::
  "Listeners \<Rightarrow> Room \<Rightarrow> Connection list \<Rightarrow> GameDataMsg list \<Rightarrow> RootMsg list
     \<Rightarrow> bool \<Rightarrow> Connection list \<Rightarrow> bool \<Rightarrow> Room" where
  "broadcastLoop L r [] gamedata payloads incl exclude reliable = r"
| "broadcastLoop L r (c # cs) gamedata payloads incl exclude reliable =
     (if c \<in> set exclude then broadcastLoop L r cs gamedata payloads incl exclude reliable
      else broadcastLoop L
             (deliver L r c gamedata payloads
                (if incl then GameDataToMessage (code r) (clientId c)
                 else GameDataMessage (code r)) reliable)
             cs gamedata payloads incl exclude reliable)"

text \<open>
  \<open>incl\<close> is the optional \<^verbatim>\<open>include\<close> parameter: \<open>None\<close> when it was not supplied. The
  parameter is typed \<^verbatim>\<open>Connection[]\<close>, so the test \<^verbatim>\<open>!singleClient\<close> of line 883 never
  holds and has no branch here.
\<close>

definition clientsToBroadcast :: "Room \<Rightarrow> Connection list option \<Rightarrow> Connection list" where
  "clientsToBroadcast r incl =
     (case incl of Some cs \<Rightarrow> cs | None \<Rightarrow> map snd (connections r))"

definition broadcastMessages ::
  "Listeners \<Rightarrow> Room \<Rightarrow> GameDataMsg list \<Rightarrow> RootMsg list \<Rightarrow> Connection list option
     \<Rightarrow> Connection list \<Rightarrow> bool \<Rightarrow> Room" where
  "broadcastMessages L r gamedata payloads incl exclude reliable =
     (if gamedata = [] \<and> payloads = [] then r
      else if length (clientsToBroadcast r incl) = 1 then
        (let singleClient = hd (clientsToBroadcast r incl)
         in if singleClient \<in> set exclude then r
            else deliver L r singleClient gamedata payloads
                   (GameDataToMessage (code r) (clientId singleClient)) reliable)
      else broadcastLoop L r (clientsToBroadcast r incl) gamedata payloads
             (incl \<noteq> None) exclude reliable)"

subsection \<open>Lookups\<close>

text \<open>
  \<^verbatim>\<open>connection.getPlayer()\<close> is a method of the absent Connection class; it is taken to be
  the lookup of the connection's client id among the players of the room.
  \<^verbatim>\<open>getConnection\<close> (lines 812-819) resolves a player to its client id and returns
  \<^verbatim>\<open>undefined\<close> when that id is falsy, that is 0.
\<close>

definition getPlayer :: "Room \<Rightarrow> Connection \<Rightarrow> PlayerData option" where
  "getPlayer r c = map_get (players r) (clientId c)"

definition getConnection :: "Room \<Rightarrow> PlayerData \<Rightarrow> Connection option" where
  "getConnection r player =
     (if pd_clientId player = 0 then None else map_get (connections r) (pd_clientId player))"

definition hostIsMe :: "Room \<Rightarrow> bool" where
  "hostIsMe r = (hostId r = Server)"

definition host :: "Room \<Rightarrow> PlayerData option" where
  "host r =
     (if serverAsHost r then
        (case actingHostIds r of [] \<Rightarrow> None | a # _ \<Rightarrow> map_get (players r) a)
      else map_get (players r) (hostId r))"

subsection \<open>broadcast and updateHostForClient\<close>

definition broadcast ::
  "Listeners \<Rightarrow> Room \<Rightarrow> GameDataMsg list \<Rightarrow> bool \<Rightarrow> PlayerData option \<Rightarrow> RootMsg list
     \<Rightarrow> Room" where
  "broadcast L r messages reliable recipient payloads =
     (let includedConnection =
            (case recipient of None \<Rightarrow> None | Some p \<Rightarrow> getConnection r p)
      in broadcastMessages L r messages payloads
           (case includedConnection of None \<Rightarrow> None | Some c \<Rightarrow> Some [c]) [] reliable)"

definition updateHostForClient :: "Listeners \<Rightarrow> Room \<Rightarrow> int \<Rightarrow> Connection option \<Rightarrow> Room" where
  "updateHostForClient L r hid recipient =
     broadcast L r [] True
       (case recipient of None \<Rightarrow> None | Some c \<Rightarrow> getPlayer r c)
       [JoinGameMessage (code r) Temp hid, RemovePlayerMessage (code r) Temp Error hid]"

text \<open>
  \<^verbatim>\<open>addActingHost\<close> (lines 1279-1289) takes a player or a connection; both carry a client
  id, and a connection is its own connection.
\<close>

definition addActingHost :: "Listeners \<Rightarrow> Room \<Rightarrow> PlayerData + Connection \<Rightarrow> Room" where
  "addActingHost L r player =
     (let cid = (case player of Inl p \<Rightarrow> pd_clientId p | Inr c \<Rightarrow> clientId c);
          r1 = r\<lparr>actingHostIds := set_add (actingHostIds r) cid\<rparr>;
          connection = (case player of Inl p \<Rightarrow> map_get (connections r1) cid | Inr c \<Rightarrow> Some c)
      in case connection of
           None \<Rightarrow> r1
         | Some c \<Rightarrow>
             if actingHostWaitingFor r1 = [] then updateHostForClient L r1 cid (Some c) else r1)"

subsection \<open>Spawning\<close>

text \<open>
  Modelled from the spec: \<^verbatim>\<open>spawnPrefab\<close> and \<^verbatim>\<open>spawnNecessaryObjects\<close> are inherited
  from the core library. A prefab lists the component classes of a spawn type; each
  component gets the next net id of the monotonic counter and is registered under it; when
  the server is the host the spawn is queued on the outbound stream.
\<close>

definition prefab :: "SpawnType \<Rightarrow> ComponentClass list" where
  "prefab t =
     (case t of
        SpawnPlayer \<Rightarrow> [PlayerControl, PlayerPhysics, CustomNetworkTransform]
      | SpawnLobbyBehaviour \<Rightarrow> [LobbyBehaviourC]
      | SpawnGameData \<Rightarrow> [GameDataC, VoteBanSystemC]
      | SpawnMeetingHud \<Rightarrow> [MeetingHudC]
      | SpawnShipStatus \<Rightarrow> [ShipStatusC]
      | SpawnAirship \<Rightarrow> [AirshipStatus]
      | SpawnOther n \<Rightarrow> [UnknownComponent])"

definition spawnPrefab :: "Room \<Rightarrow> SpawnType \<Rightarrow> int \<Rightarrow> Room" where
  "spawnPrefab r t owner =
     (let ids = map (\<lambda>i. incr_netid r + 1 + i) [0 ..< length (prefab t)];
          comps = map (\<lambda>(i, k). (i, \<lparr>netId = i, ownerId = owner, spawnType = t, cls = k\<rparr>))
                    (zip ids (prefab t));
          r1 = r\<lparr>netobjects := netobjects r @ comps,
                  incr_netid := incr_netid r + length (prefab t)\<rparr>
      in if hostIsMe r1 then r1\<lparr>stream := stream r1 @ [SpawnMessage t owner ids]\<rparr> else r1)"

definition findComponent :: "Room \<Rightarrow> ComponentClass \<Rightarrow> Networkable option" where
  "findComponent r k = find (\<lambda>c. cls c = k) (map snd (netobjects r))"

definition lobbyBehaviour :: "Room \<Rightarrow> Networkable option" where
  "lobbyBehaviour r = findComponent r LobbyBehaviourC"

definition gameData :: "Room \<Rightarrow> Networkable option" where
  "gameData r = findComponent r GameDataC"

definition spawnNecessaryObjects :: "Room \<Rightarrow> Room" where
  "spawnNecessaryObjects r =
     (let r1 = (if lobbyBehaviour r = None \<and> state r = NotStarted
                then spawnPrefab r SpawnLobbyBehaviour (- 2) else r)
      in if gameData r1 = None then spawnPrefab r1 SpawnGameData (- 2) else r1)"

subsection \<open>Joining\<close>

definition handleJoin :: "Room \<Rightarrow> int \<Rightarrow> Room \<times> PlayerData" where
  "handleJoin r cid =
     (case map_get (players r) cid of
        Some cachedPlayer \<Rightarrow> (r, cachedPlayer)
      | None \<Rightarrow>
          (let player = \<lparr>pd_clientId = cid, playerId = None, isDead = None\<rparr>;
               r1 = r\<lparr>players := map_set (players r) cid player\<rparr>
           in (if hostIsMe r1 then spawnNecessaryObjects r1 else r1, player)))"

text \<open>
  The host a waiting or remaining client is shown when acting hosts are taken into
  account (lines 1653-1657 and 1621-1625).
\<close>

definition hostSeenBy :: "Room \<Rightarrow> int \<Rightarrow> int" where
  "hostSeenBy r cid =
     (if actingHostsEnabled r then (if cid \<in> set (actingHostIds r) then cid else hostId r)
      else hostId r)"

fun joinOtherClientsLoop :: "Room \<Rightarrow> (int \<times> Connection) list \<Rightarrow> Room" where
  "joinOtherClientsLoop r [] = r"
| "joinOtherClientsLoop r ((cid, client) # rest) =
     (if client \<in> set (waitingForHost r) then
        joinOtherClientsLoop
          (sendPacket (r\<lparr>waitingForHost := set_delete (waitingForHost r) client\<rparr>) client
             (ReliablePacket
                [JoinedGameMessage (code r) cid (hostSeenBy r cid)
                   (map clientId (filter (\<lambda>cur. cur \<noteq> client) (map snd (connections r))))]))
          rest
      else joinOtherClientsLoop r rest)"

definition joinOtherClients :: "Room \<Rightarrow> Room" where
  "joinOtherClients r = (joinOtherClientsLoop r (connections r))\<lparr>waitingForHost := []\<rparr>"

fun sendAll :: "Room \<Rightarrow> Connection list \<Rightarrow> (Connection \<Rightarrow> Packet) \<Rightarrow> Room" where
  "sendAll r [] f = r"
| "sendAll r (c # cs) f = sendAll (sendPacket r c (f c)) cs f"

text \<open>
  \<^verbatim>\<open>handleRemoteJoin\<close> (lines 1380-1546). The assignment to the joining connection's
  \<^verbatim>\<open>room\<close> field is a field of the connection and is not represented.
\<close>

definition handleRemoteJoin :: "Listeners \<Rightarrow> Room \<Rightarrow> Connection \<Rightarrow> Room" where
  "handleRemoteJoin L r joiningClient =
     (if map_get (connections r) (clientId joiningClient) \<noteq> None then r
      else
       (let (r1, joiningPlayer) = handleJoin r (clientId joiningClient);
            r2 =
              (if serverAsHost r1 then
                 (if actingHostIds r1 = [] then
                    (let r1a = emit r1 (RoomSelectHostEvent True True (clientId joiningClient))
                     in if \<not> fst (onSelectHost L True True joiningClient)
                        then addActingHost L r1a (Inl joiningPlayer) else r1a)
                  else r1)
               else
                 (if host r1 = None then
                    (let r1a = emit r1 (RoomSelectHostEvent False True (clientId joiningClient))
                     in if \<not> fst (onSelectHost L False True joiningClient)
                        then emit (r1a\<lparr>hostId := clientId (snd (onSelectHost L False True joiningClient))\<rparr>)
                               (PlayerSetHostEvent (pd_clientId joiningPlayer))
                        else r1a)
                  else r1))
        in if state r2 = Ended \<and> \<not> serverAsHost r2 then
             (if clientId joiningClient = hostId r2 then
                (let r3 = r2\<lparr>state := NotStarted,
                              connections := map_set (connections r2) (clientId joiningClient) joiningClient\<rparr>;
                     r4 = sendPacket r3 joiningClient
                            (ReliablePacket
                               [JoinedGameMessage (code r3) (clientId joiningClient) (hostId r3)
                                  (map clientId
                                     (filter (\<lambda>cur. cur \<noteq> joiningClient) (map snd (connections r3))))]);
                     r5 = broadcast L r4 [] True (getPlayer r4 joiningClient)
                            [JoinGameMessage (code r4) (clientId joiningClient) (hostId r4)]
                 in joinOtherClients r5)
              else
                (let r3 = r2\<lparr>waitingForHost := set_add (waitingForHost r2) joiningClient,
                              connections := map_set (connections r2) (clientId joiningClient) joiningClient\<rparr>;
                     r4 = broadcast L r3 [] True (getPlayer r3 joiningClient)
                            [JoinGameMessage (code r3) (clientId joiningClient) (hostId r3)]
                 in sendPacket r4 joiningClient
                      (ReliablePacket [WaitForHostMessage (code r4) (clientId joiningClient)])))
           else
             (let r3 = r2\<lparr>actingHostWaitingFor := pd_clientId joiningPlayer # actingHostWaitingFor r2\<rparr>;
                  r4 = sendPacket r3 joiningClient
                         (ReliablePacket
                            [JoinedGameMessage (code r3) (clientId joiningClient) (hostId r3)
                               (map (\<lambda>kv. clientId (snd kv)) (connections r3)),
                             AlterGameMessage (code r3) (if privacy r3 = Public then 1 else 0)]);
                  r5 = sendAll r4
                         (map snd (filter (\<lambda>kv. map_get (players r4) (fst kv) \<noteq> None) (connections r4)))
                         (\<lambda>connection. ReliablePacket
                            [JoinGameMessage (code r4) (clientId joiningClient) (hostId r4)]);
                  r6 = emit (r5\<lparr>connections := map_set (connections r5) (clientId joiningClient) joiningClient,
                                  playerJoinedFlag := True\<rparr>)
                         (PlayerJoinEvent (pd_clientId joiningPlayer));
                  r7 = (if state r6 = Ended then r6\<lparr>state := NotStarted\<rparr> else r6)
              in if hostIsMe r7 then
                   (let r8 = (if lobbyBehaviour r7 = None \<and> state r7 = NotStarted
                              then spawnPrefab r7 SpawnLobbyBehaviour (- 2) else r7)
                    in if gameData r8 = None then spawnPrefab r8 SpawnGameData (- 2) else r8)
                 else r7)))"

subsection \<open>Leaving\<close>

text \<open>
  Modelled from the spec: \<^verbatim>\<open>handleLeave\<close> is inherited from the core library. A player
  of the room that leaves is removed from the players and its components are despawned;
  the player that left is returned, or nothing when the client had no player.
\<close>

definition handleLeave :: "Room \<Rightarrow> int \<Rightarrow> Room \<times> PlayerData option" where
  "handleLeave r cid =
     (case map_get (players r) cid of
        None \<Rightarrow> (r, None)
      | Some p \<Rightarrow>
          (emit (r\<lparr>players := map_delete (players r) cid,
                    netobjects := filter (\<lambda>kv. ownerId (snd kv) \<noteq> cid) (netobjects r)\<rparr>)
             (PlayerLeaveEvent cid), Some p))"

text \<open>
  \<^verbatim>\<open>destroy\<close> (lines 669-691); the superclass's part and the worker's room table are
  outside the room record.
\<close>

definition destroy :: "Listeners \<Rightarrow> Room \<Rightarrow> DisconnectReason \<Rightarrow> Room" where
  "destroy L r reason =
     (let r1 = emit r (RoomBeforeDestroyEvent reason)
      in if onBeforeDestroy L reason then r1
         else
           (let r2 = broadcast L r1 [] True None [RemoveGameMessage reason]
            in emit (r2\<lparr>state := Destroyed\<rparr>) RoomDestroyEvent))"

fun updateActingHosts :: "Listeners \<Rightarrow> Room \<Rightarrow> int list \<Rightarrow> Room" where
  "updateActingHosts L r [] = r"
| "updateActingHosts L r (actingHostId # rest) =
     (case map_get (connections r) actingHostId of
        None \<Rightarrow> updateActingHosts L r rest
      | Some actingHostConn \<Rightarrow>
          updateActingHosts L (updateHostForClient L r actingHostId (Some actingHostConn)) rest)"

text \<open>The final loop of \<^verbatim>\<open>handleRemoteLeave\<close>, lines 1609-1631.\<close>

definition removePlayerFor :: "Room \<Rightarrow> Connection \<Rightarrow> DisconnectReason \<Rightarrow> Connection \<Rightarrow> Packet" where
  "removePlayerFor r leavingConnection reason connection =
     ReliablePacket
       [RemovePlayerMessage (code r) (clientId leavingConnection) reason
          (if serverAsHost r then Server
           else if actingHostsEnabled r then
                  (if clientId connection \<in> set (actingHostIds r) then clientId connection
                   else hostId r)
                else hostId r)]"

text \<open>
  \<^verbatim>\<open>handleRemoteLeave\<close> (lines 1548-1637) in its parts: the removal of the player that
  left from \<^verbatim>\<open>actingHostWaitingFor\<close> (lines 1564-1577), the selection of a new acting
  host or host (lines 1579-1607), and the whole.
\<close>

definition leaveWaitingFor :: "Listeners \<Rightarrow> Room \<Rightarrow> PlayerData option \<Rightarrow> Room" where
  "leaveWaitingFor L r playerLeft =
     (case playerLeft of
        None \<Rightarrow> r
      | Some p \<Rightarrow>
          if pd_clientId p \<in> set (actingHostWaitingFor r) then
            (let r1 = r\<lparr>actingHostWaitingFor :=
                           remove1 (pd_clientId p) (actingHostWaitingFor r)\<rparr>
             in if actingHostWaitingFor r1 = [] \<and> actingHostsEnabled r1
                then updateActingHosts L r1 (actingHostIds r1) else r1)
          else r)"

definition leaveSelectHost :: "Listeners \<Rightarrow> Room \<Rightarrow> Connection \<Rightarrow> Room" where
  "leaveSelectHost L r leavingConnection =
     (if serverAsHost r then
        (if actingHostIds r = [] \<and> actingHostsEnabled r then
           (case map snd (connections r) of
              [] \<Rightarrow> r
            | newHostConn # _ \<Rightarrow>
                (let r1 = emit r (RoomSelectHostEvent True False (clientId newHostConn));
                     ev = onSelectHost L True False newHostConn
                 in if \<not> fst ev then addActingHost L r1 (Inr (snd ev)) else r1))
         else r)
      else
        (if hostId r = clientId leavingConnection then
           (case map snd (connections r) of
              [] \<Rightarrow> r
            | newHostConn # _ \<Rightarrow>
                (let r1 = emit r (RoomSelectHostEvent False False (clientId newHostConn));
                     ev = onSelectHost L False False newHostConn
                 in if \<not> fst ev then
                      (let r2 = r1\<lparr>hostId := clientId (snd ev)\<rparr>;
                           r3 = (case getPlayer r2 (snd ev) of
                                   None \<Rightarrow> r2
                                 | Some player \<Rightarrow>
                                     emit r2 (PlayerSetHostEvent (pd_clientId player)))
                       in if state r3 = Ended \<and> snd ev \<in> set (waitingForHost r3)
                          then joinOtherClients (r3\<lparr>state := NotStarted\<rparr>)
                          else r3)
                    else r1))
         else r))"

definition handleRemoteLeave :: "Listeners \<Rightarrow> Room \<Rightarrow> Connection \<Rightarrow> DisconnectReason \<Rightarrow> Room" where
  "handleRemoteLeave L r leavingConnection reason =
     (let r0 = r\<lparr>waitingForHost := set_delete (waitingForHost r) leavingConnection,
                  connections := map_delete (connections r) (clientId leavingConnection)\<rparr>;
          left = handleLeave r0 (clientId leavingConnection);
          r1 = fst left;
          playerLeft = snd left
      in if connections r1 = [] then destroy L r1 Destroy
         else
          (let r2 = (if clientId leavingConnection \<in> set (actingHostIds r1)
                     then r1\<lparr>actingHostIds := set_delete (actingHostIds r1) (clientId leavingConnection)\<rparr>
                     else r1);
               r3 = leaveWaitingFor L r2 playerLeft;
               r4 = leaveSelectHost L r3 leavingConnection
           in sendAll r4 (map snd (connections r4)) (removePlayerFor r4 leavingConnection reason)))"

subsection \<open>The listener of player.checkname\<close>

text \<open>
  Lines 280-321. Players are identified by their client id, the key of the players map.
  \<open>flag\<close> is the local variable of that name.
\<close>

definition sceneChangePacket :: "Room \<Rightarrow> Connection \<Rightarrow> Packet" where
  "sceneChangePacket r actingHostConn =
     ReliablePacket
       [JoinGameMessage (code r) Temp (clientId actingHostConn),
        GameDataToMessage (code r) (clientId actingHostConn)
          [SceneChangeMessage Temp ''OnlineGame'']]"

fun checkNameLoop :: "Listeners \<Rightarrow> Room \<Rightarrow> int list \<Rightarrow> bool \<Rightarrow> Room" where
  "checkNameLoop L r [] flag = r"
| "checkNameLoop L r (actingHostId # rest) flag =
     (case map_get (connections r) actingHostId of
        None \<Rightarrow> checkNameLoop L r rest flag
      | Some actingHostConn \<Rightarrow>
          if \<not> finishedActingHostTransactionRoutine r \<and> \<not> flag then
            checkNameLoop L (sendPacket r actingHostConn (sceneChangePacket r actingHostConn))
              rest True
          else
            checkNameLoop L (updateHostForClient L r actingHostId (Some actingHostConn))
              rest flag)"

definition onPlayerCheckName :: "Listeners \<Rightarrow> Room \<Rightarrow> int \<Rightarrow> Room" where
  "onPlayerCheckName L r player =
     (if (case actingHostWaitingFor r of [] \<Rightarrow> False | p # _ \<Rightarrow> p = player) then
        (if actingHostsEnabled r then checkNameLoop L r (actingHostIds r) False else r)
          \<lparr>actingHostWaitingFor := []\<rparr>
      else r)"

section \<open>Rooms and listeners used as concrete inputs\<close>

text \<open>The room as the constructor leaves it (lines 237-268).\<close>

definition newRoom :: "bool \<Rightarrow> GameSettings \<Rightarrow> Room" where
  "newRoom saah s =
     \<lparr>code = 0, hostId = (if saah then Server else 0), serverAsHost = saah,
      state = NotStarted, privacy = Private, settings = s,
      actingHostsEnabled = True, actingHostIds = [], connections = [],
      waitingForHost = [], actingHostWaitingFor = [], players = [], netobjects = [],
      incr_netid = 0, stream = [], voteStates = [],
      finishedActingHostTransactionRoutine = False, playerJoinedFlag = False,
      sent = [], emitted = [], handled = []\<rparr>"

text \<open>Listeners that cancel nothing and alter nothing.\<close>

definition quiet :: Listeners where
  "quiet =
     \<lparr>onClientBroadcast = (\<lambda>c gamedata payloads. (False, gamedata)),
      onSelectHost = (\<lambda>a b c. (False, c)),
      onBeforeDestroy = (\<lambda>reason. False)\<rparr>"

definition conn :: "int \<Rightarrow> Connection" where
  "conn cid = \<lparr>clientId = cid, roundTripPing = 40\<rparr>"

definition person :: "int \<Rightarrow> nat \<Rightarrow> PlayerData" where
  "person cid pid = \<lparr>pd_clientId = cid, playerId = Some pid, isDead = Some False\<rparr>"

text \<open>A room in server-as-host mode with the given clients, each with a player.\<close>

definition lobby :: "bool \<Rightarrow> int list \<Rightarrow> Room" where
  "lobby saah cids =
     (newRoom saah [])
       \<lparr>code := 32,
        connections := map (\<lambda>cid. (cid, conn cid)) cids,
        players := map (\<lambda>cid. (cid, person cid (nat cid))) cids\<rparr>"

section \<open>What a broadcast sends\<close>

text \<open>
  The packets one recipient receives from a broadcast, and the wrapper the code chooses
  for its game data: \<^verbatim>\<open>GameDataTo\<close> when \<^verbatim>\<open>include\<close> was supplied or when there is exactly
  one recipient, \<^verbatim>\<open>GameData\<close> otherwise.
\<close>

definition packetsFor ::
  "Listeners \<Rightarrow> Connection \<Rightarrow> GameDataMsg list \<Rightarrow> RootMsg list
     \<Rightarrow> (GameDataMsg list \<Rightarrow> RootMsg) \<Rightarrow> bool \<Rightarrow> (int \<times> Packet) list" where
  "packetsFor L c gamedata payloads wrap reliable =
     (let ev = onClientBroadcast L c gamedata payloads;
          messages = (if snd ev \<noteq> [] then [wrap (snd ev)] else []) @ payloads
      in if fst ev \<or> messages = [] then [] else [(clientId c, mkPacket reliable messages)])"

definition wrapper ::
  "Room \<Rightarrow> Connection list option \<Rightarrow> Connection \<Rightarrow> GameDataMsg list \<Rightarrow> RootMsg" where
  "wrapper r incl c =
     (if incl \<noteq> None \<or> length (clientsToBroadcast r incl) = 1
      then GameDataToMessage (code r) (clientId c) else GameDataMessage (code r))"

section \<open>The host a remaining client is shown when a client leaves\<close>

text \<open>
  The host field a remaining client is to be shown. Outside server-as-host mode it is the
  client's own id for an enabled acting host and the room's host id otherwise, as in
  \<^verbatim>\<open>setHost\<close> (lines 1163-1169); in server-as-host mode it is Server for a client that
  is not an enabled acting host. For an enabled acting host in server-as-host mode
  nothing is stated.
\<close>

definition hostShown :: "Room \<Rightarrow> Connection \<Rightarrow> int option" where
  "hostShown r c =
     (if serverAsHost r then
        (if actingHostsEnabled r \<and> clientId c \<in> set (actingHostIds r) then None
         else Some Server)
      else Some (if actingHostsEnabled r \<and> clientId c \<in> set (actingHostIds r)
                 then clientId c else hostId r))"

text \<open>A server-as-host room of three clients whose first client is an acting host.\<close>

definition hostedLobby :: Room where
  "hostedLobby = (lobby True [7, 8, 9])\<lparr>actingHostIds := [7]\<rparr>"

text \<open>
  A room with a client host, client 7, of three clients whose second client is an acting
  host.
\<close>

definition clientHostedLobby :: Room where
  "clientHostedLobby = (lobby False [7, 8, 9])\<lparr>hostId := 7, actingHostIds := [8]\<rparr>"

section \<open>The acting-host handshake: what is observed\<close>

text \<open>
  The packet of lines 288-309 as an entry of the log, the recipients of such packets in a
  log, and the connections of the acting hosts that have one, in the order of the acting
  hosts.
\<close>

definition isSceneChange :: "int \<Rightarrow> int \<times> Packet \<Rightarrow> bool" where
  "isSceneChange gameCode e =
     (snd e = ReliablePacket
        [JoinGameMessage gameCode Temp (fst e),
         GameDataToMessage gameCode (fst e) [SceneChangeMessage Temp ''OnlineGame'']])"

definition sceneChangeRecipients :: "int \<Rightarrow> (int \<times> Packet) list \<Rightarrow> int list" where
  "sceneChangeRecipients gameCode log = map fst (filter (isSceneChange gameCode) log)"

definition connectedActingHosts :: "Room \<Rightarrow> int list \<Rightarrow> Connection list" where
  "connectedActingHosts r ids =
     concat (map (\<lambda>a. case map_get (connections r) a of None \<Rightarrow> [] | Some c \<Rightarrow> [c]) ids)"

text \<open>
  The host view update as packets: what a connection is sent when it is told that it is
  the host itself. The ClientBroadcastEvent of the update may cancel it, or put game data
  in front of the two messages.
\<close>

definition hostUpdatePackets :: "Listeners \<Rightarrow> int \<Rightarrow> Connection \<Rightarrow> (int \<times> Packet) list" where
  "hostUpdatePackets L gameCode c =
     (let update = [JoinGameMessage gameCode Temp (clientId c),
                    RemovePlayerMessage gameCode Temp Error (clientId c)];
          ev = onClientBroadcast L c [] update
      in if fst ev then []
         else [(clientId c,
                ReliablePacket
                  ((if snd ev = [] then []
                    else [GameDataToMessage gameCode (clientId c) (snd ev)]) @ update))])"

text \<open>
  An acting host with a connection is registered under its own client id, which is not 0,
  and has a player of that id in the room.
\<close>

definition ownPlayer :: "Room \<Rightarrow> int \<Rightarrow> bool" where
  "ownPlayer r a =
     (case map_get (connections r) a of
        None \<Rightarrow> True
      | Some c \<Rightarrow>
          clientId c = a \<and> a \<noteq> 0 \<and>
          (case map_get (players r) a of None \<Rightarrow> False | Some pl \<Rightarrow> pd_clientId pl = a))"

definition actingHostsHavePlayers :: "Room \<Rightarrow> bool" where
  "actingHostsHavePlayers r = list_all (ownPlayer r) (actingHostIds r)"

text \<open>
  The packets of the handshake: with the latch set, a host view update for every connected
  acting host; with the latch unset, the scene change for the first connected acting host
  and a host view update for each later one.
\<close>

definition handshakePacketsOf :: "Listeners \<Rightarrow> Room \<Rightarrow> bool \<Rightarrow> Connection list \<Rightarrow> (int \<times> Packet) list" where
  "handshakePacketsOf L r latched cs =
     (if latched then concat (map (hostUpdatePackets L (code r)) cs)
      else
        (case cs of
           [] \<Rightarrow> []
         | c # rest \<Rightarrow>
             (clientId c, sceneChangePacket r c)
               # concat (map (hostUpdatePackets L (code r)) rest)))"

definition handshakePackets :: "Listeners \<Rightarrow> Room \<Rightarrow> (int \<times> Packet) list" where
  "handshakePackets L r =
     handshakePacketsOf L r (finishedActingHostTransactionRoutine r)
       (connectedActingHosts r (actingHostIds r))"

definition handshakeRoom :: Room where
  "handshakeRoom = (lobby True [7, 8, 9])\<lparr>actingHostIds := [7, 8], actingHostWaitingFor := [9]\<rparr>"

text \<open>The same room after the handshake of the host has finished.\<close>

definition latchedRoom :: Room where
  "latchedRoom = handshakeRoom\<lparr>finishedActingHostTransactionRoutine := True\<rparr>"

section \<open>The anti-cheat plugin (plugin.ts)\<close>

datatype InfractionSeverity = Low | Medium | High | Critical

datatype InfractionName =
  ForbiddenRpcMeetingVote | DuplicateRpcMeetingVote | InvalidRpcMeetingVote
  | InvalidRpcColor | InvalidRpcName | ForbiddenRpcCode | ForbiddenRpcVent
  | InvalidRpcHat | InvalidRpcPet | InvalidRpcSkin | InvalidRpcCode
  | ForbiddenRpcInnernetObject | UnknownRpcInnernetObject

text \<open>
  The \<^verbatim>\<open>additionalDetails\<close> object of an infraction: property names with their values. A
  property read from a message that does not declare it is \<^verbatim>\<open>undefined\<close>.
\<close>

datatype Detail =
  DNat nat | DBool bool | DStr string | DTag RpcMessageTag | DSpawn SpawnType | DUndefined

definition optNat :: "nat option \<Rightarrow> Detail" where
  "optNat x = (case x of None \<Rightarrow> DUndefined | Some n \<Rightarrow> DNat n)"

definition optStr :: "string option \<Rightarrow> Detail" where
  "optStr x = (case x of None \<Rightarrow> DUndefined | Some n \<Rightarrow> DStr n)"

text \<open>The creation time of an infraction is read from the clock and is left out.\<close>

record PlayerInfraction =
  userId :: string
  gameId :: "string option"
  playerPing :: nat
  infractionName :: InfractionName
  additionalDetails :: "(string \<times> Detail) list"
  severity :: InfractionSeverity

record Cosmetic =
  among_us_id :: nat
  cosmetic_type :: string

record User =
  user_id :: string
  display_name :: string
  owned_cosmetics :: "Cosmetic list"

text \<open>
  What the plugin asks of code outside it: the auth plugin (\<^verbatim>\<open>getConnectionUser\<close>), the
  role service and the exception table of \<^verbatim>\<open>./hooks\<close>, the membership tests
  \<^verbatim>\<open>x in Color\<close>, \<^verbatim>\<open>x in Hat\<close>, \<^verbatim>\<open>x in Pet\<close>, \<^verbatim>\<open>x in Skin\<close> on the enumerations of the
  protocol library, and the metrics plugin: whether it is loaded, and its game and lobby
  ids for this room.
\<close>

record Collaborators =
  getConnectionUser :: "Connection \<Rightarrow> User option"
  getPlayerRole :: "PlayerData \<Rightarrow> nat option"
  getAnticheatExceptions :: "nat \<Rightarrow> InfractionName list"
  inColor :: "nat \<Rightarrow> bool"
  inHat :: "nat \<Rightarrow> bool"
  inPet :: "nat \<Rightarrow> bool"
  inSkin :: "nat \<Rightarrow> bool"
  metricsLoaded :: bool
  lobbyCurrentGameId :: "string option"
  lobbyId :: "string option"

text \<open>
  The plugin with its room. \<open>flushed\<close> is the metrics sink: the batches inserted into
  \<^verbatim>\<open>player_infraction\<close>, each row with the lobby id it was inserted under.
\<close>

record AntiCheat =
  room :: Room
  unflushedPlayerInfractions :: "PlayerInfraction list"
  flushed :: "(string option \<times> PlayerInfraction) list list"

definition flushPlayerInfractions :: "Collaborators \<Rightarrow> AntiCheat \<Rightarrow> AntiCheat" where
  "flushPlayerInfractions E p =
     (if unflushedPlayerInfractions p = [] then p
      else if \<not> metricsLoaded E then p
      else p\<lparr>flushed := flushed p @ [map (\<lambda>i. (lobbyId E, i)) (unflushedPlayerInfractions p)],
              unflushedPlayerInfractions := []\<rparr>)"

text \<open>
  \<^verbatim>\<open>createInfraction\<close> (lines 159-211). The calls that are not awaited in the source are
  run in place.
\<close>

definition createInfraction ::
  "Collaborators \<Rightarrow> AntiCheat \<Rightarrow> PlayerData + Connection \<Rightarrow> InfractionName
     \<Rightarrow> (string \<times> Detail) list \<Rightarrow> InfractionSeverity \<Rightarrow> AntiCheat \<times> PlayerInfraction option" where
  "createInfraction E p playerOrConnection iname details sev =
     (let gid = (if metricsLoaded E then lobbyCurrentGameId E else None);
          connection = (case playerOrConnection of
                          Inr c \<Rightarrow> Some c | Inl pl \<Rightarrow> getConnection (room p) pl);
          player = (case playerOrConnection of
                      Inl pl \<Rightarrow> Some pl | Inr c \<Rightarrow> getPlayer (room p) c)
      in case connection of
           None \<Rightarrow> (p, None)
         | Some c \<Rightarrow>
            (case player of
               None \<Rightarrow> (p, None)
             | Some pl \<Rightarrow>
                 if (case getPlayerRole E pl of
                       None \<Rightarrow> False
                     | Some playerRole \<Rightarrow> iname \<in> set (getAnticheatExceptions E playerRole))
                 then (p, None)
                 else
                   (case getConnectionUser E c of
                      None \<Rightarrow> (p, None)
                    | Some connectionUser \<Rightarrow>
                        (let infraction =
                               \<lparr>userId = user_id connectionUser, gameId = gid,
                                playerPing = roundTripPing c, infractionName = iname,
                                additionalDetails = details, severity = sev\<rparr>;
                             p1 = p\<lparr>unflushedPlayerInfractions :=
                                      unflushedPlayerInfractions p @ [infraction]\<rparr>
                         in if sev \<noteq> Low then (p1, Some infraction)
                            else
                              (if length (unflushedPlayerInfractions p1) > 100
                               then flushPlayerInfractions E p1 else p1, Some infraction)))))"

definition onRoomGameEnd :: "Collaborators \<Rightarrow> AntiCheat \<Rightarrow> AntiCheat" where
  "onRoomGameEnd E p = flushPlayerInfractions E p"

definition onRoomDestroy :: "Collaborators \<Rightarrow> AntiCheat \<Rightarrow> AntiCheat" where
  "onRoomDestroy E p = flushPlayerInfractions E p"

subsection \<open>onRpcMessageData\<close>

text \<open>
  Modelled from the spec: \<^verbatim>\<open>getPlayerByPlayerId\<close> and the room's \<^verbatim>\<open>meetingHud\<close>,
  \<^verbatim>\<open>shipStatus\<close> and \<^verbatim>\<open>voteBanSystem\<close> are inherited from the core library: the player
  with the given in-game slot, and the component of that class registered in the room.
\<close>

definition getPlayerByPlayerId :: "Room \<Rightarrow> nat option \<Rightarrow> PlayerData option" where
  "getPlayerByPlayerId r pid =
     (case pid of
        None \<Rightarrow> None
      | Some n \<Rightarrow> find (\<lambda>pl. playerId pl = Some n) (map snd (players r)))"

definition meetingHud :: "Room \<Rightarrow> Networkable option" where
  "meetingHud r = findComponent r MeetingHudC"

definition voteBanSystem :: "Room \<Rightarrow> Networkable option" where
  "voteBanSystem r = findComponent r VoteBanSystemC"

definition shipStatus :: "Room \<Rightarrow> Networkable option" where
  "shipStatus r = find (\<lambda>c. cls c = ShipStatusC \<or> cls c = AirshipStatus) (map snd (netobjects r))"

text \<open>\<^verbatim>\<open>x in E\<close> for an enumeration object \<open>E\<close>: false for \<^verbatim>\<open>undefined\<close>.\<close>

definition inEnum :: "(nat \<Rightarrow> bool) \<Rightarrow> nat option \<Rightarrow> bool" where
  "inEnum e x = (case x of None \<Rightarrow> False | Some n \<Rightarrow> e n)"

text \<open>
  \<^verbatim>\<open>owned_cosmetics.findIndex(...) === -1\<close>: no owned cosmetic has this id and this type.
\<close>

definition notOwned :: "User \<Rightarrow> nat option \<Rightarrow> string \<Rightarrow> bool" where
  "notOwned u x t =
     (find (\<lambda>cosmetic. Some (among_us_id cosmetic) = x \<and> cosmetic_type cosmetic = t)
        (owned_cosmetics u) = None)"

text \<open>
  Every exit of \<^verbatim>\<open>onRpcMessageData\<close> is a plain \<^verbatim>\<open>return\<close>, a
  \<^verbatim>\<open>return this.createInfraction(sender, ...)\<close>, or a \<^verbatim>\<open>break\<close> out of the first
  \<^verbatim>\<open>switch\<close>. The cases of the first switch compute which; a case without \<^verbatim>\<open>break\<close>
  continues with the case written after it.
\<close>

datatype Outcome =
  Return
  | Infract InfractionName "(string \<times> Detail) list" InfractionSeverity
  | Break

definition codeDetails :: "Networkable \<Rightarrow> RpcMessageTag \<Rightarrow> (string \<times> Detail) list" where
  "codeDetails component tag =
     [(''netId'', DNat (netId component)), (''rpcId'', DTag tag),
      (''spawnType'', DSpawn (spawnType component))]"

definition voteDetails :: "BaseRpcMessage \<Rightarrow> (string \<times> Detail) list" where
  "voteDetails m =
     [(''voterPlayerId'', optNat (votingid m)), (''suspectPlayerId'', optNat (suspectid m))]"

text \<open>\<^verbatim>\<open>this.room.meetingHud?.voteStates.get(castVoteMessage.votingid)\<close>, line 231.\<close>

definition voterStateOf :: "Room \<Rightarrow> BaseRpcMessage \<Rightarrow> VoteState option" where
  "voterStateOf r m =
     (if meetingHud r = None then None
      else (case votingid m of None \<Rightarrow> None | Some v \<Rightarrow> map_get (voteStates r) v))"

text \<open>Lines 219-248; the case \<^verbatim>\<open>AddVote\<close> has no statement and continues here.\<close>

definition caseCastVote :: "Room \<Rightarrow> BaseRpcMessage \<Rightarrow> Connection \<Rightarrow> Outcome" where
  "caseCastVote r m sender =
     (case getPlayerByPlayerId r (votingid m) of
        None \<Rightarrow> Infract ForbiddenRpcMeetingVote (voteDetails m) High
      | Some castVoteVoter \<Rightarrow>
          if pd_clientId castVoteVoter \<noteq> clientId sender
          then Infract ForbiddenRpcMeetingVote (voteDetails m) Critical
          else
            (case voterStateOf r m of
               None \<Rightarrow> Return
             | Some voterState \<Rightarrow>
                 if hasVoted voterState
                 then Infract DuplicateRpcMeetingVote
                        (voteDetails m @ [(''alreadyVotedForPlayerId'', DNat (votedForId voterState))])
                        High
                 else
                   (case getPlayerByPlayerId r (suspectid m) of
                      Some castVoteSuspect \<Rightarrow>
                        if isDead castVoteSuspect = Some True
                        then Infract InvalidRpcMeetingVote
                               (voteDetails m @ [(''isDead'', DBool True)]) High
                        else Break
                    | None \<Rightarrow>
                        if suspectid m \<noteq> Some 255
                        then Infract InvalidRpcMeetingVote
                               (voteDetails m @ [(''isDead'', DBool False)]) High
                        else Break)))"

text \<open>Lines 327-335: \<^verbatim>\<open>SetSkin\<close>, continuing into \<^verbatim>\<open>SetScanner\<close>, which breaks.\<close>

definition caseSetSkin :: "Collaborators \<Rightarrow> BaseRpcMessage \<Rightarrow> Outcome" where
  "caseSetSkin E m =
     (if skin m = Some 9999999 then Return
      else if \<not> inEnum (inSkin E) (skin m)
      then Infract InvalidRpcSkin [(''skinId'', optNat (skin m))] Critical
      else Break)"

text \<open>Lines 317-326: \<^verbatim>\<open>SetPet\<close>, continuing into \<^verbatim>\<open>SetSkin\<close>.\<close>

definition caseSetPet :: "Collaborators \<Rightarrow> BaseRpcMessage \<Rightarrow> Connection \<Rightarrow> Outcome" where
  "caseSetPet E m sender =
     (if pet m = Some 9999999 then Return
      else
        (case getConnectionUser E sender of
           None \<Rightarrow> Return
         | Some setPetConnectionUser \<Rightarrow>
             if \<not> inEnum (inPet E) (pet m) \<and> notOwned setPetConnectionUser (pet m) ''PET''
             then Infract InvalidRpcPet [(''petId'', optNat (pet m))] Critical
             else caseSetSkin E m))"

text \<open>Lines 308-316: \<^verbatim>\<open>SetHat\<close>, continuing into \<^verbatim>\<open>SetPet\<close>.\<close>

definition caseSetHat :: "Collaborators \<Rightarrow> BaseRpcMessage \<Rightarrow> Connection \<Rightarrow> Outcome" where
  "caseSetHat E m sender =
     (if hat m = Some 9999999 then Return
      else
        (case getConnectionUser E sender of
           None \<Rightarrow> caseSetPet E m sender
         | Some setHatConnectionUser \<Rightarrow>
             if \<not> inEnum (inHat E) (hat m) \<and> notOwned setHatConnectionUser (hat m) ''HAT''
             then Infract InvalidRpcHat [(''hatId'', optNat (hat m))] Critical
             else caseSetPet E m sender))"

definition caseCheckName :: "Collaborators \<Rightarrow> BaseRpcMessage \<Rightarrow> Connection \<Rightarrow> Outcome" where
  "caseCheckName E m sender =
     (case getConnectionUser E sender of
        None \<Rightarrow> Return
      | Some checkNameConnectionUser \<Rightarrow>
          if name m \<noteq> Some (display_name checkNameConnectionUser)
          then Infract InvalidRpcName [(''name'', optStr (name m))] Critical
          else Break)"

text \<open>The first \<^verbatim>\<open>switch\<close>, lines 214-355.\<close>

definition firstSwitch ::
  "Collaborators \<Rightarrow> Room \<Rightarrow> Networkable \<Rightarrow> BaseRpcMessage \<Rightarrow> Connection \<Rightarrow> Outcome" where
  "firstSwitch E r component m sender =
     (case messageTag m of
        AddVote \<Rightarrow> caseCastVote r m sender
      | CastVote \<Rightarrow> caseCastVote r m sender
      | CheckColor \<Rightarrow>
          if \<not> inEnum (inColor E) (color m)
          then Infract InvalidRpcColor [(''colorId'', optNat (color m))] Critical
          else Break
      | CheckName \<Rightarrow> caseCheckName E m sender
      | ClearVote \<Rightarrow> Infract ForbiddenRpcCode (codeDetails component (messageTag m)) Critical
      | Close \<Rightarrow> Infract ForbiddenRpcCode (codeDetails component (messageTag m)) Critical
      | Exiled \<Rightarrow> Infract ForbiddenRpcCode (codeDetails component (messageTag m)) Critical
      | MurderPlayer \<Rightarrow> Infract ForbiddenRpcCode (codeDetails component (messageTag m)) Critical
      | PlayAnimation \<Rightarrow> Infract ForbiddenRpcCode (codeDetails component (messageTag m)) Critical
      | ReportDeadBody \<Rightarrow> Infract ForbiddenRpcCode (codeDetails component (messageTag m)) Critical
      | SetInfected \<Rightarrow> Infract ForbiddenRpcCode (codeDetails component (messageTag m)) Critical
      | SetTasks \<Rightarrow> Infract ForbiddenRpcCode (codeDetails component (messageTag m)) Critical
      | SetName \<Rightarrow> Infract ForbiddenRpcCode (codeDetails component (messageTag m)) Critical
      | SetColor \<Rightarrow> Infract ForbiddenRpcCode (codeDetails component (messageTag m)) Critical
      | StartMeeting \<Rightarrow> Infract ForbiddenRpcCode (codeDetails component (messageTag m)) Critical
      | SyncSettings \<Rightarrow> Infract ForbiddenRpcCode (codeDetails component (messageTag m)) Critical
      | VotingComplete \<Rightarrow> Infract ForbiddenRpcCode (codeDetails component (messageTag m)) Critical
      | BootFromVent \<Rightarrow> Infract ForbiddenRpcCode (codeDetails component (messageTag m)) Critical
      | ClimbLadder \<Rightarrow> Break
      | CloseDoorsOfType \<Rightarrow> Break
      | CompleteTask \<Rightarrow> Break
      | EnterVent \<Rightarrow> Infract ForbiddenRpcVent [(''ventId'', optNat (ventid m))] High
      | ExitVent \<Rightarrow> Infract ForbiddenRpcVent [(''ventId'', optNat (ventid m))] High
      | RepairSystem \<Rightarrow> Break
      | SendChat \<Rightarrow> Break
      | SendChatNote \<Rightarrow> Break
      | SendQuickChat \<Rightarrow> Break
      | SetHat \<Rightarrow> caseSetHat E m sender
      | SetPet \<Rightarrow> caseSetPet E m sender
      | SetSkin \<Rightarrow> caseSetSkin E m
      | SetScanner \<Rightarrow> Break
      | SetStartCounter \<Rightarrow>
          if actingHostsEnabled r \<and> clientId sender \<notin> set (actingHostIds r)
          then Infract ForbiddenRpcCode (codeDetails component (messageTag m)) Critical
          else Break
      | SnapTo \<Rightarrow>
          if \<not> (case shipStatus r of None \<Rightarrow> False | Some ship \<Rightarrow> cls ship = AirshipStatus)
          then Infract ForbiddenRpcCode (codeDetails component SnapTo) Critical
          else Break
      | UpdateSystem \<Rightarrow> Break
      | UsePlatform \<Rightarrow> Break
      | OtherRpc n \<Rightarrow>
          Infract InvalidRpcCode
            [(''netId'', DNat (netId component)), (''rpcId'', DTag (messageTag m))] High)"

text \<open>
  The second \<^verbatim>\<open>switch\<close>, lines 357-403: whether the component is of the class that
  carries the tag, in which case the function returns without an infraction.
\<close>

definition secondSwitch :: "Room \<Rightarrow> Networkable \<Rightarrow> RpcMessageTag \<Rightarrow> bool" where
  "secondSwitch r component tag =
     (if tag = AddVote then voteBanSystem r = Some component
      else if tag \<in> {CastVote, ClearVote, Close, VotingComplete}
      then meetingHud r = Some component
      else if tag \<in> {CheckColor, CheckName, CompleteTask, Exiled, MurderPlayer, PlayAnimation,
                      ReportDeadBody, SendChat, SendChatNote, SendQuickChat, SetColor, SetHat,
                      SetInfected, SetName, SetPet, SetScanner, SetSkin, SetStartCounter,
                      SetTasks, StartMeeting, SyncSettings, UsePlatform}
      then cls component = PlayerControl
      else if tag \<in> {ClimbLadder, EnterVent, ExitVent}
      then cls component = PlayerPhysics
      else if tag = SnapTo then cls component = CustomNetworkTransform
      else if tag \<in> {RepairSystem, CloseDoorsOfType} then shipStatus r = Some component
      else False)"

definition verdict ::
  "Collaborators \<Rightarrow> Room \<Rightarrow> Networkable \<Rightarrow> BaseRpcMessage \<Rightarrow> Connection
     \<Rightarrow> (InfractionName \<times> (string \<times> Detail) list \<times> InfractionSeverity) option" where
  "verdict E r component m sender =
     (case firstSwitch E r component m sender of
        Return \<Rightarrow> None
      | Infract iname details sev \<Rightarrow> Some (iname, details, sev)
      | Break \<Rightarrow>
          if secondSwitch r component (messageTag m) then None
          else Some (ForbiddenRpcCode, codeDetails component (messageTag m), Critical))"

definition onRpcMessageData ::
  "Collaborators \<Rightarrow> AntiCheat \<Rightarrow> Networkable \<Rightarrow> BaseRpcMessage \<Rightarrow> Connection
     \<Rightarrow> AntiCheat \<times> PlayerInfraction option" where
  "onRpcMessageData E p component rpcMessage sender =
     (case verdict E (room p) component rpcMessage sender of
        None \<Rightarrow> (p, None)
      | Some (iname, details, sev) \<Rightarrow> createInfraction E p (Inr sender) iname details sev)"

subsection \<open>onRpcMessage\<close>

text \<open>
  Modelled from the spec: \<^verbatim>\<open>settings.patch\<close> and \<^verbatim>\<open>component.HandleRpc\<close> belong to the
  protocol and core libraries. Patching overwrites the settings the message carries; a
  call of HandleRpc is recorded in the log \<open>handled\<close> of the room with the net id of the
  component and the RPC.
\<close>

definition patch :: "GameSettings \<Rightarrow> GameSettings \<Rightarrow> GameSettings" where
  "patch old new = fold (\<lambda>kv acc. map_set acc (fst kv) (snd kv)) new old"

definition HandleRpc :: "AntiCheat \<Rightarrow> Networkable \<Rightarrow> BaseRpcMessage \<Rightarrow> AntiCheat" where
  "HandleRpc p component rpc =
     p\<lparr>room := (room p)\<lparr>handled := handled (room p) @ [(netId component, rpc)]\<rparr>\<rparr>"

text \<open>
  The test of line 409: the sender is the host, the handshake has not finished and the
  RPC is a SyncSettings message.
\<close>

definition initialSyncSettings :: "AntiCheat \<Rightarrow> BaseRpcMessage \<Rightarrow> Connection option \<Rightarrow> bool" where
  "initialSyncSettings p rpc sender =
     ((case host (room p) of
         None \<Rightarrow> False
       | Some h \<Rightarrow> (case sender of None \<Rightarrow> False | Some s \<Rightarrow> pd_clientId h = clientId s))
      \<and> \<not> finishedActingHostTransactionRoutine (room p)
      \<and> messageTag rpc = SyncSettings)"

text \<open>
  \<^verbatim>\<open>onRpcMessage\<close> (lines 407-440) for an RPC message with net id \<open>netid\<close> and data
  \<open>rpc\<close>; \<open>sender\<close> is \<^verbatim>\<open>context.sender\<close>.
\<close>

definition onRpcMessage ::
  "Collaborators \<Rightarrow> AntiCheat \<Rightarrow> nat \<Rightarrow> BaseRpcMessage \<Rightarrow> Connection option \<Rightarrow> AntiCheat" where
  "onRpcMessage E p netid rpc sender =
     (if initialSyncSettings p rpc sender then
        p\<lparr>room := (room p)\<lparr>finishedActingHostTransactionRoutine := True,
                            settings := patch (settings (room p))
                                          (case rpcSettings rpc of None \<Rightarrow> [] | Some s \<Rightarrow> s)\<rparr>\<rparr>
      else
        (case map_get (netobjects (room p)) netid of
           Some component \<Rightarrow>
             (case sender of
                Some s \<Rightarrow>
                  if ownerId component = - 1 \<or> ownerId component \<noteq> clientId s then
                    fst (createInfraction E p (Inr s) ForbiddenRpcInnernetObject
                           [(''netId'', DNat netid), (''rpcId'', DTag (messageTag rpc))] Critical)
                  else
                    (let res = onRpcMessageData E p component rpc s
                     in if (case snd res of None \<Rightarrow> False
                            | Some infraction \<Rightarrow> severity infraction = Critical)
                        then fst res
                        else HandleRpc (fst res) component rpc)
              | None \<Rightarrow> HandleRpc p component rpc)
         | None \<Rightarrow>
             (case sender of
                Some s \<Rightarrow>
                  fst (createInfraction E p (Inr s) UnknownRpcInnernetObject
                         [(''netId'', DNat netid), (''rpcId'', DTag (messageTag rpc))] Medium)
              | None \<Rightarrow> p)))"

section \<open>Recording an infraction: what is observed\<close>

text \<open>
  Whether the role of a player exempts it from an infraction, and the record that
  \<^verbatim>\<open>createInfraction\<close> appends for a user.
\<close>


definition exempt :: "Collaborators \<Rightarrow> PlayerData \<Rightarrow> InfractionName \<Rightarrow> bool" where
  "exempt E pl iname =
     (case getPlayerRole E pl of
        None \<Rightarrow> False
      | Some playerRole \<Rightarrow> iname \<in> set (getAnticheatExceptions E playerRole))"

definition infractionOf ::
  "Collaborators \<Rightarrow> User \<Rightarrow> Connection \<Rightarrow> InfractionName \<Rightarrow> (string \<times> Detail) list
     \<Rightarrow> InfractionSeverity \<Rightarrow> PlayerInfraction" where
  "infractionOf E u c iname details sev =
     \<lparr>userId = user_id u, gameId = (if metricsLoaded E then lobbyCurrentGameId E else None),
      playerPing = roundTripPing c, infractionName = iname,
      additionalDetails = details, severity = sev\<rparr>"


section \<open>Messages, collaborators and a plugin used as concrete inputs\<close>

definition rpcOf :: "RpcMessageTag \<Rightarrow> BaseRpcMessage" where
  "rpcOf tag =
     \<lparr>messageTag = tag, votingid = None, suspectid = None, color = None, name = None,
      hat = None, pet = None, skin = None, ventid = None, rpcSettings = None\<rparr>"

definition SetHatMessage :: "nat \<Rightarrow> BaseRpcMessage" where
  "SetHatMessage h = (rpcOf SetHat)\<lparr>hat := Some h\<rparr>"

definition CastVoteMessage :: "nat \<Rightarrow> nat \<Rightarrow> BaseRpcMessage" where
  "CastVoteMessage v s = (rpcOf CastVote)\<lparr>votingid := Some v, suspectid := Some s\<rparr>"

definition services :: Collaborators where
  "services =
     \<lparr>getConnectionUser =
        (\<lambda>c. Some \<lparr>user_id = ''user'', display_name = ''Alice'', owned_cosmetics = []\<rparr>),
      getPlayerRole = (\<lambda>pl. None),
      getAnticheatExceptions = (\<lambda>playerRole. []),
      inColor = (\<lambda>n. n < 18), inHat = (\<lambda>n. n < 94), inPet = (\<lambda>n. n < 12),
      inSkin = (\<lambda>n. n < 16),
      metricsLoaded = True, lobbyCurrentGameId = Some ''game'', lobbyId = Some ''lobby''\<rparr>"

definition netobject :: "nat \<Rightarrow> int \<Rightarrow> SpawnType \<Rightarrow> ComponentClass \<Rightarrow> nat \<times> Networkable" where
  "netobject n owner t k = (n, \<lparr>netId = n, ownerId = owner, spawnType = t, cls = k\<rparr>)"

definition guarded :: AntiCheat where
  "guarded =
     \<lparr>room = (lobby True [7, 8])
        \<lparr>actingHostIds := [7], finishedActingHostTransactionRoutine := True,
         netobjects := [netobject 1 (- 1) SpawnLobbyBehaviour LobbyBehaviourC,
                        netobject 2 7 SpawnPlayer PlayerControl,
                        netobject 3 7 SpawnMeetingHud MeetingHudC],
         voteStates := [(7, \<lparr>hasVoted = True, votedForId = 8\<rparr>)]\<rparr>,
      unflushedPlayerInfractions = [], flushed = []\<rparr>"

section \<open>The anti-cheat gate: what is observed\<close>

text \<open>
  Whether the infraction returned by \<^verbatim>\<open>onRpcMessageData\<close> makes \<^verbatim>\<open>onRpcMessage\<close> return
  before HandleRpc (line 425), and the name and severity of a returned infraction.
\<close>

definition suppresses :: "PlayerInfraction option \<Rightarrow> bool" where
  "suppresses infraction =
     (case infraction of None \<Rightarrow> False | Some i \<Rightarrow> severity i = Critical)"

text \<open>
  The result of a call of \<^verbatim>\<open>createInfraction\<close> that records: the plugin with the infraction
  appended to the buffer, and the infraction returned.
\<close>

definition records ::
  "Collaborators \<Rightarrow> AntiCheat \<Rightarrow> User \<Rightarrow> Connection \<Rightarrow> InfractionName
     \<Rightarrow> (string \<times> Detail) list \<Rightarrow> InfractionSeverity \<Rightarrow> AntiCheat \<times> PlayerInfraction option" where
  "records E p u s iname details sev =
     (p\<lparr>unflushedPlayerInfractions :=
          unflushedPlayerInfractions p @ [infractionOf E u s iname details sev]\<rparr>,
      Some (infractionOf E u s iname details sev))"

definition recordedAs :: "PlayerInfraction option \<Rightarrow> (InfractionName \<times> InfractionSeverity) option" where
  "recordedAs infraction = map_option (\<lambda>i. (infractionName i, severity i)) infraction"

text \<open>A buffer that holds 100 infractions.\<close>

definition entry :: PlayerInfraction where
  "entry = infractionOf services
     \<lparr>user_id = ''user'', display_name = ''Alice'', owned_cosmetics = []\<rparr> (conn 8)
     ForbiddenRpcVent [(''ventId'', DNat 0)] High"

definition nearlyFull :: AntiCheat where
  "nearlyFull = guarded\<lparr>unflushedPlayerInfractions := replicate 100 entry\<rparr>"

section \<open>Broadcast: the empty call\<close>

text \<open>
  C9. Calling broadcastMessages with an empty game data list and an empty payload list
  returns at once: the room is returned as it was, so no ClientBroadcastEvent is
  emitted, no packet is sent and no field of the room changes.
\<close>

theorem broadcastMessages_empty_noop:
  "broadcastMessages L r [] [] incl exclude reliable = r"
  by (simp add: broadcastMessages_def)

section \<open>Broadcast: the wrapper of the game data\<close>

lemma deliver_sent:
  "sent (deliver L r c gd pl wrap rel) = sent r @ packetsFor L c gd pl wrap rel"
  by (cases "onClientBroadcast L c gd pl")
     (simp add: deliver_def packetsFor_def Let_def sendPacket_def emit_def)

lemma deliver_code: "code (deliver L r c gd pl wrap rel) = code r"
  by (simp add: deliver_def Let_def sendPacket_def emit_def)

lemma broadcastLoop_sent:
  "sent (broadcastLoop L r cs gd pl inc exc rel) =
     sent r @ concat (map (\<lambda>c. if c \<in> set exc then []
        else packetsFor L c gd pl
               (if inc then GameDataToMessage (code r) (clientId c)
                else GameDataMessage (code r)) rel) cs)"
  by (induction cs arbitrary: r) (simp_all add: deliver_code deliver_sent cong: if_cong)

lemma broadcastMessages_sent:
  assumes "\<not> (gd = [] \<and> pl = [])"
  shows "sent (broadcastMessages L r gd pl incl exc rel) =
     sent r @ concat (map (\<lambda>c. if c \<in> set exc then []
        else packetsFor L c gd pl (wrapper r incl c) rel) (clientsToBroadcast r incl))"
proof (cases "length (clientsToBroadcast r incl) = 1")
  case True
  then obtain a where a: "clientsToBroadcast r incl = [a]"
    by (cases "clientsToBroadcast r incl") simp_all
  have "broadcastMessages L r gd pl incl exc rel =
          (if a \<in> set exc then r
           else deliver L r a gd pl (GameDataToMessage (code r) (clientId a)) rel)"
    using assms a by (cases "gd = []") (simp_all add: broadcastMessages_def Let_def)
  then show ?thesis
    using a by (simp add: deliver_sent wrapper_def)
next
  case False
  have "broadcastMessages L r gd pl incl exc rel =
          broadcastLoop L r (clientsToBroadcast r incl) gd pl (incl \<noteq> None) exc rel"
    using assms False by (cases "gd = []") (simp_all add: broadcastMessages_def)
  then show ?thesis
    using False by (simp add: broadcastLoop_sent wrapper_def cong: if_cong)
qed

lemma packetsFor_uncanceled:
  assumes "onClientBroadcast L c gd pl = (False, altered)" and "altered \<noteq> []"
  shows "packetsFor L c gd pl wrap rel = [(clientId c, mkPacket rel (wrap altered # pl))]"
  using assms by (simp add: packetsFor_def)

text \<open>
  C8, as the code has it. For a call with game data, every recipient that is not excluded
  and whose ClientBroadcastEvent comes back uncanceled with non-empty altered game data is
  sent a packet that starts with that game data wrapped by \<open>wrapper\<close> and continues with
  the payloads: the wrapper is GameDataTo when the include parameter was supplied or when
  the recipient list has exactly one connection, and GameData otherwise.
\<close>

theorem broadcastMessages_wrapper:
  assumes "gamedata \<noteq> []"
    and "c \<in> set (clientsToBroadcast r incl)"
    and "c \<notin> set exclude"
    and "onClientBroadcast L c gamedata payloads = (False, altered)"
    and "altered \<noteq> []"
  shows "(clientId c, mkPacket reliable (wrapper r incl c altered # payloads))
           \<in> set (drop (length (sent r))
                      (sent (broadcastMessages L r gamedata payloads incl exclude reliable)))"
proof -
  have "(clientId c, mkPacket reliable (wrapper r incl c altered # payloads))
          \<in> set (if c \<in> set exclude then []
                   else packetsFor L c gamedata payloads (wrapper r incl c) reliable)"
    using assms(3) packetsFor_uncanceled [OF assms(4) assms(5)] by simp
  with assms(2) have "(clientId c, mkPacket reliable (wrapper r incl c altered # payloads))
      \<in> set (concat (map (\<lambda>c. if c \<in> set exclude then []
            else packetsFor L c gamedata payloads (wrapper r incl c) reliable)
          (clientsToBroadcast r incl)))"
    unfolding set_concat by (intro UN_I [where a = "if c \<in> set exclude then []
            else packetsFor L c gamedata payloads (wrapper r incl c) reliable"]) simp_all
  then show ?thesis
    using assms(1) by (simp add: broadcastMessages_sent)
qed

text \<open>
  The theorem at a room of two clients with no include list: the second client is sent the
  game data wrapped in GameData.
\<close>

theorem broadcastMessages_wrapper_witness:
  "(8, ReliablePacket [GameDataMessage 32 [DespawnMessage 5]])
     \<in> set (drop (length (sent (lobby True [7, 8])))
                (sent (broadcastMessages quiet (lobby True [7, 8]) [DespawnMessage 5] []
                         None [] True)))"
  using broadcastMessages_wrapper [of "[DespawnMessage 5]" "conn 8" "lobby True [7, 8]" None
      "[]" quiet "[]" "[DespawnMessage 5]" True]
  by (simp add: lobby_def newRoom_def quiet_def conn_def clientsToBroadcast_def
      wrapper_def mkPacket_def)

text \<open>
  The claim as stated fails in a room with one connection: with no include list the only
  recipient is sent GameDataTo, not GameData.
\<close>

theorem broadcastMessages_single_recipient_counterexample:
  "sent (broadcastMessages quiet (lobby True [7]) [DespawnMessage 5] [] None [] True)
     = [(7, ReliablePacket [GameDataToMessage 32 7 [DespawnMessage 5]])]"
  by (simp add: broadcastMessages_def clientsToBroadcast_def lobby_def newRoom_def
      quiet_def conn_def deliver_def emit_def sendPacket_def mkPacket_def Let_def)

section \<open>Joining twice\<close>

lemma map_get_key: "k \<in> fst ` set m \<Longrightarrow> map_get m k \<noteq> None"
  by (simp add: map_get_def map_of_eq_None_iff)

text \<open>
  C10. handleRemoteJoin with a connection whose client id is already a key of the room's
  connections returns the room as it was: no player is created, no host is selected and
  no packet is sent.
\<close>

theorem handleRemoteJoin_known_client:
  assumes "clientId joiningClient \<in> fst ` set (connections r)"
  shows "handleRemoteJoin L r joiningClient = r"
proof -
  have "map_get (connections r) (clientId joiningClient) \<noteq> None"
    using assms by (rule map_get_key)
  then show ?thesis
    unfolding handleRemoteJoin_def by (rule if_P)
qed

theorem handleRemoteJoin_known_client_witness:
  "clientId (conn 7) \<in> fst ` set (connections (lobby True [7, 8]))
   \<and> handleRemoteJoin quiet (lobby True [7, 8]) (conn 7) = lobby True [7, 8]"
  using handleRemoteJoin_known_client [of "conn 7" "lobby True [7, 8]" quiet]
  by (simp add: lobby_def newRoom_def conn_def)

section \<open>Leaving: the host field of RemovePlayer\<close>

lemma sendAll_eq:
  "sendAll r cs f = r\<lparr>sent := sent r @ map (\<lambda>c. (clientId c, f c)) cs\<rparr>"
  by (induction cs arbitrary: r) (simp_all add: sendPacket_def)

lemma map_zip_map: "map g (zip xs (map f xs)) = map (\<lambda>x. g (x, f x)) xs"
  by (induction xs) simp_all

text \<open>
  C3, as the code has it. When the room still has connections after the leaving one is
  removed, handleRemoteLeave ends by sending every remaining connection, in the order of
  the connections, one reliable packet holding RemovePlayer for the leaving client. Its
  host field is, in the final room: Server when the room is in server-as-host mode and
  the recipient is not an enabled acting host; the recipient's own client id when the
  room is not in server-as-host mode and the recipient is an enabled acting host; and the
  room's hostId when the room is not in server-as-host mode and the recipient is not an
  enabled acting host.
\<close>

theorem handleRemoteLeave_removePlayer_host:
  assumes "map_delete (connections r) (clientId lc) \<noteq> []"
  shows "\<exists>earlier hosts.
    sent (handleRemoteLeave L r lc reason) =
      earlier @ map (\<lambda>ch. (clientId (fst ch),
          ReliablePacket [RemovePlayerMessage (code (handleRemoteLeave L r lc reason)) (clientId lc)
             reason (snd ch)]))
        (zip (map snd (connections (handleRemoteLeave L r lc reason))) hosts)
    \<and> length hosts = length (connections (handleRemoteLeave L r lc reason))
    \<and> (\<forall>i < length hosts. \<forall>h.
          hostShown (handleRemoteLeave L r lc reason)
            (snd (connections (handleRemoteLeave L r lc reason) ! i)) = Some h
          \<longrightarrow> hosts ! i = h)"
proof -
  let ?r0 = "r\<lparr>waitingForHost := set_delete (waitingForHost r) lc,
                  connections := map_delete (connections r) (clientId lc)\<rparr>"
  have "connections (fst (handleLeave ?r0 (clientId lc))) = map_delete (connections r) (clientId lc)"
    by (simp add: handleLeave_def emit_def split: option.splits)
  then have ne: "connections (fst (handleLeave ?r0 (clientId lc))) \<noteq> []"
    using assms by simp
  obtain r4 where r4: "handleRemoteLeave L r lc reason =
      sendAll r4 (map snd (connections r4)) (removePlayerFor r4 lc reason)"
    unfolding handleRemoteLeave_def Let_def if_not_P [OF ne] by blast
  let ?host = "\<lambda>c. if serverAsHost r4 then Server
           else if actingHostsEnabled r4 then
                  (if clientId c \<in> set (actingHostIds r4) then clientId c else hostId r4)
                else hostId r4"
  let ?hosts = "map ?host (map snd (connections r4))"
  have s: "sent (handleRemoteLeave L r lc reason) =
      sent r4 @ map (\<lambda>ch. (clientId (fst ch),
          ReliablePacket [RemovePlayerMessage (code r4) (clientId lc) reason (snd ch)]))
        (zip (map snd (connections r4)) ?hosts)"
    unfolding r4 sendAll_eq map_zip_map
    by (simp add: removePlayerFor_def)
  have f: "code (handleRemoteLeave L r lc reason) = code r4"
    "connections (handleRemoteLeave L r lc reason) = connections r4"
    "hostShown (handleRemoteLeave L r lc reason) = hostShown r4"
    unfolding r4 sendAll_eq by (simp_all add: hostShown_def fun_eq_iff)
  have pt: "?host c = h" if "hostShown r4 c = Some h" for c h
    using that by (auto simp add: hostShown_def split: if_splits)
  have h: "\<forall>i < length ?hosts. \<forall>h.
          hostShown r4 (snd (connections r4 ! i)) = Some h \<longrightarrow> ?hosts ! i = h"
  proof (intro allI impI)
    fix i h
    assume i: "i < length ?hosts" and sh: "hostShown r4 (snd (connections r4 ! i)) = Some h"
    from i have "?hosts ! i = ?host (snd (connections r4 ! i))" by simp
    with pt [OF sh] show "?hosts ! i = h" by simp
  qed
  show ?thesis
    unfolding f
  proof (intro exI conjI)
    show "sent (handleRemoteLeave L r lc reason) =
      sent r4 @ map (\<lambda>ch. (clientId (fst ch),
          ReliablePacket [RemovePlayerMessage (code r4) (clientId lc) reason (snd ch)]))
        (zip (map snd (connections r4)) ?hosts)"
      by (rule s)
    show "length ?hosts = length (connections r4)" by simp
    show "\<forall>i < length ?hosts. \<forall>h.
          hostShown r4 (snd (connections r4 ! i)) = Some h \<longrightarrow> ?hosts ! i = h"
      by (rule h)
  qed
qed

text \<open>
  The theorem at the server-as-host room: client 9 leaves, and client 8, which is not an
  acting host, is among the remaining clients that are sent RemovePlayer; its host field
  is Server.
\<close>

theorem handleRemoteLeave_removePlayer_host_witness:
  "map_delete (connections hostedLobby) (clientId (conn 9)) \<noteq> [] \<and>
   (\<exists>earlier h. sent (handleRemoteLeave quiet hostedLobby (conn 9) ExitGame) =
      earlier @ [(7, ReliablePacket [RemovePlayerMessage 32 9 ExitGame h]),
                 (8, ReliablePacket [RemovePlayerMessage 32 9 ExitGame Server])])"
proof -
  let ?r = "handleRemoteLeave quiet hostedLobby (conn 9) ExitGame"
  have h: "map_delete (connections hostedLobby) (clientId (conn 9)) \<noteq> []"
    by (simp add: hostedLobby_def lobby_def newRoom_def conn_def map_delete_def)
  have v: "connections ?r = [(7, conn 7), (8, conn 8)]" "code ?r = 32"
    "hostShown ?r (conn 8) = Some Server"
    by (simp_all add: handleRemoteLeave_def hostedLobby_def lobby_def newRoom_def conn_def
      person_def handleLeave_def map_get_def map_delete_def set_delete_def emit_def
      leaveWaitingFor_def leaveSelectHost_def sendAll_eq hostShown_def Let_def)
  from handleRemoteLeave_removePlayer_host [OF h, of quiet ExitGame]
  obtain earlier hosts where e:
    "sent ?r = earlier @ map (\<lambda>ch. (clientId (fst ch),
          ReliablePacket [RemovePlayerMessage (code ?r) (clientId (conn 9)) ExitGame (snd ch)]))
        (zip (map snd (connections ?r)) hosts)"
    "length hosts = length (connections ?r)"
    "\<forall>i < length hosts. \<forall>h. hostShown ?r (snd (connections ?r ! i)) = Some h \<longrightarrow> hosts ! i = h"
    by blast
  from e(2) obtain h0 h1 where hs: "hosts = [h0, h1]"
    unfolding v by (cases hosts; cases "tl hosts") auto
  from e(3) [rule_format, of 1 Server] have "h1 = Server"
    using v(3) unfolding hs v(1) by simp
  with e(1) have "sent ?r =
      earlier @ [(7, ReliablePacket [RemovePlayerMessage 32 9 ExitGame h0]),
                 (8, ReliablePacket [RemovePlayerMessage 32 9 ExitGame Server])]"
    unfolding hs v by (simp add: conn_def)
  with h show ?thesis by blast
qed

text \<open>
  The claim as stated fails outside server-as-host mode: client 9 leaves a room whose
  host is client 7 and whose client 8 is an enabled acting host, and client 8 is sent
  RemovePlayer with its own id as the host field, not the room's hostId.
\<close>

theorem handleRemoteLeave_acting_host_counterexample:
  "sent (handleRemoteLeave quiet clientHostedLobby (conn 9) ExitGame) =
     [(7, ReliablePacket [RemovePlayerMessage 32 9 ExitGame 7]),
      (8, ReliablePacket [RemovePlayerMessage 32 9 ExitGame 8])]
   \<and> \<not> serverAsHost (handleRemoteLeave quiet clientHostedLobby (conn 9) ExitGame)
   \<and> hostId (handleRemoteLeave quiet clientHostedLobby (conn 9) ExitGame) = 7"
  by (simp add: handleRemoteLeave_def clientHostedLobby_def lobby_def newRoom_def conn_def
      person_def handleLeave_def map_get_def map_delete_def set_delete_def emit_def
      leaveWaitingFor_def leaveSelectHost_def sendAll_eq removePlayerFor_def Let_def)

text \<open>
  In server-as-host mode the final loop (lines 1619-1625) shows Server to an enabled
  acting host as well, where \<^verbatim>\<open>enableSaaH\<close> (lines 1188-1193), \<^verbatim>\<open>addActingHost\<close> (lines
  1286-1288) and the loop of lines 1568-1574 show it its own client id. The code at the
  server-as-host room: client 9 leaves and the acting host, client 7, is sent Server.
\<close>

lemma handleRemoteLeave_acting_host_is_shown_Server:
  "sent (handleRemoteLeave quiet hostedLobby (conn 9) ExitGame) =
     [(7, ReliablePacket [RemovePlayerMessage 32 9 ExitGame Server]),
      (8, ReliablePacket [RemovePlayerMessage 32 9 ExitGame Server])]
   \<and> actingHostsEnabled (handleRemoteLeave quiet hostedLobby (conn 9) ExitGame)
   \<and> actingHostIds (handleRemoteLeave quiet hostedLobby (conn 9) ExitGame) = [7]
   \<and> Server \<noteq> 7"
  by (simp add: handleRemoteLeave_def hostedLobby_def lobby_def newRoom_def conn_def person_def
      handleLeave_def map_get_def map_delete_def set_delete_def emit_def leaveWaitingFor_def
      leaveSelectHost_def sendAll_eq removePlayerFor_def Server_def Let_def)

section \<open>The acting-host handshake\<close>

lemma deliver_frame:
  "connections (deliver L r c gd pl wrap rel) = connections r \<and>
   players (deliver L r c gd pl wrap rel) = players r \<and>
   finishedActingHostTransactionRoutine (deliver L r c gd pl wrap rel)
     = finishedActingHostTransactionRoutine r"
  by (simp add: deliver_def Let_def sendPacket_def emit_def)

lemma broadcastLoop_frame:
  "code (broadcastLoop L r cs gd pl inc exc rel) = code r \<and>
   connections (broadcastLoop L r cs gd pl inc exc rel) = connections r \<and>
   players (broadcastLoop L r cs gd pl inc exc rel) = players r \<and>
   finishedActingHostTransactionRoutine (broadcastLoop L r cs gd pl inc exc rel)
     = finishedActingHostTransactionRoutine r"
  by (induction cs arbitrary: r) (simp_all add: deliver_frame deliver_code)

lemma broadcastMessages_frame:
  "code (broadcastMessages L r gd pl incl exc rel) = code r \<and>
   connections (broadcastMessages L r gd pl incl exc rel) = connections r \<and>
   players (broadcastMessages L r gd pl incl exc rel) = players r \<and>
   finishedActingHostTransactionRoutine (broadcastMessages L r gd pl incl exc rel)
     = finishedActingHostTransactionRoutine r"
  by (simp add: broadcastMessages_def Let_def deliver_frame deliver_code broadcastLoop_frame)

lemma updateHostForClient_frame:
  "code (updateHostForClient L r h rc) = code r \<and>
   connections (updateHostForClient L r h rc) = connections r \<and>
   players (updateHostForClient L r h rc) = players r \<and>
   finishedActingHostTransactionRoutine (updateHostForClient L r h rc)
     = finishedActingHostTransactionRoutine r"
  by (simp add: updateHostForClient_def broadcast_def Let_def broadcastMessages_frame)

lemma sendPacket_frame:
  "code (sendPacket r c p) = code r \<and> connections (sendPacket r c p) = connections r \<and>
   players (sendPacket r c p) = players r \<and>
   finishedActingHostTransactionRoutine (sendPacket r c p) = finishedActingHostTransactionRoutine r
   \<and> sent (sendPacket r c p) = sent r @ [(clientId c, p)]"
  by (simp add: sendPacket_def)

lemma packetsFor_hostUpdate:
  "e \<in> set (packetsFor L c gd [JoinGameMessage a b h, RemovePlayerMessage a' b' d h'] wrap rel)
     \<Longrightarrow> \<not> isSceneChange k e"
proof -
  assume "e \<in> set (packetsFor L c gd [JoinGameMessage a b h, RemovePlayerMessage a' b' d h'] wrap rel)"
  then obtain ws where "snd e = mkPacket rel (ws @ [JoinGameMessage a b h, RemovePlayerMessage a' b' d h'])"
    by (auto simp add: packetsFor_def Let_def split: if_splits)
  then show ?thesis
    by (cases rel) (auto simp add: isSceneChange_def mkPacket_def dest!: arg_cong [where f = last])
qed

lemma updateHostForClient_sent:
  "\<exists>news. sent (updateHostForClient L r h rc) = sent r @ news \<and> filter (isSceneChange k) news = []"
proof -
  let ?pl = "[JoinGameMessage (code r) Temp h, RemovePlayerMessage (code r) Temp Error h]"
  obtain incl where u: "updateHostForClient L r h rc = broadcastMessages L r [] ?pl incl [] True"
    by (simp add: updateHostForClient_def broadcast_def Let_def)
  have "\<not> ([] = [] \<and> ?pl = [])" by simp
  note s = broadcastMessages_sent [OF this, of L r incl "[]" True]
  show ?thesis
    unfolding u s
    by (intro exI conjI refl) (auto simp add: filter_empty_conv dest: packetsFor_hostUpdate)
qed

text \<open>
  The update of one acting host that has a player of its own id: the recipient of
  \<^verbatim>\<open>updateHostForClient\<close> resolves to the connection itself, and the packets are those of
  \<open>hostUpdatePackets\<close>.
\<close>

lemma updateHostForClient_exact:
  assumes c: "map_get (connections r) a = Some c" and own: "ownPlayer r a"
  shows "sent (updateHostForClient L r a (Some c)) = sent r @ hostUpdatePackets L (code r) c"
proof -
  let ?pl = "[JoinGameMessage (code r) Temp a, RemovePlayerMessage (code r) Temp Error a]"
  from own c obtain pl where w: "clientId c = a" "a \<noteq> 0"
    "map_get (players r) a = Some pl" "pd_clientId pl = a"
    by (auto simp add: ownPlayer_def split: option.splits)
  have u: "updateHostForClient L r a (Some c) = broadcastMessages L r [] ?pl (Some [c]) [] True"
    using w c by (simp add: updateHostForClient_def broadcast_def Let_def getPlayer_def
        getConnection_def)
  have "\<not> ([] = [] \<and> ?pl = [])" by simp
  note s = broadcastMessages_sent [OF this, of L r "Some [c]" "[]" True]
  show ?thesis
    unfolding u s
    by (cases "onClientBroadcast L c [] ?pl")
       (simp add: clientsToBroadcast_def wrapper_def packetsFor_def hostUpdatePackets_def
          mkPacket_def Let_def w(1) [symmetric])
qed

lemma handshakePacketsOf_cong:
  "code r' = code r \<Longrightarrow> handshakePacketsOf L r' latched cs = handshakePacketsOf L r latched cs"
  by (cases cs) (simp_all add: handshakePacketsOf_def sceneChangePacket_def)

lemma ownPlayer_cong:
  "connections r' = connections r \<Longrightarrow> players r' = players r \<Longrightarrow> ownPlayer r' = ownPlayer r"
  by (simp add: ownPlayer_def fun_eq_iff cong: option.case_cong)

lemma connectedActingHosts_cong:
  "connections r' = connections r \<Longrightarrow> connectedActingHosts r' ids = connectedActingHosts r ids"
  by (simp add: connectedActingHosts_def)

lemma checkNameLoop_frame:
  "code (checkNameLoop L r ids flag) = code r \<and>
   finishedActingHostTransactionRoutine (checkNameLoop L r ids flag)
     = finishedActingHostTransactionRoutine r"
proof (induction ids arbitrary: r flag)
  case Nil
  then show ?case by simp
next
  case (Cons a ids)
  show ?case
    by (cases "map_get (connections r) a")
       (simp_all add: Cons.IH updateHostForClient_frame sendPacket_frame)
qed

lemma isSceneChange_packet:
  "isSceneChange (code r) (clientId c, sceneChangePacket r c)"
  by (simp add: isSceneChange_def sceneChangePacket_def)

lemma checkNameLoop_sent:
  "\<exists>news. sent (checkNameLoop L r ids flag) = sent r @ news \<and>
     sceneChangeRecipients (code r) news =
       (if finishedActingHostTransactionRoutine r \<or> flag then []
        else map clientId (take 1 (connectedActingHosts r ids)))"
proof (induction ids arbitrary: r flag)
  case Nil
  then show ?case by (simp add: sceneChangeRecipients_def connectedActingHosts_def)
next
  case (Cons a ids)
  show ?case
  proof (cases "map_get (connections r) a")
    case None
    from Cons.IH [of r flag] obtain news where
      "sent (checkNameLoop L r ids flag) = sent r @ news"
      "sceneChangeRecipients (code r) news =
        (if finishedActingHostTransactionRoutine r \<or> flag then []
         else map clientId (take 1 (connectedActingHosts r ids)))" by blast
    then show ?thesis using None by (simp add: connectedActingHosts_def)
  next
    case (Some c)
    show ?thesis
    proof (cases "\<not> finishedActingHostTransactionRoutine r \<and> \<not> flag")
      case True
      let ?r1 = "sendPacket r c (sceneChangePacket r c)"
      from Cons.IH [of ?r1 True] obtain news where
        n: "sent (checkNameLoop L ?r1 ids True) = sent ?r1 @ news"
           "sceneChangeRecipients (code ?r1) news = []" by auto
      have "sent (checkNameLoop L r (a # ids) flag) = sent r @ ((clientId c, sceneChangePacket r c) # news)"
        using Some True n(1) by (simp add: sendPacket_frame)
      moreover have "sceneChangeRecipients (code r) ((clientId c, sceneChangePacket r c) # news)
          = map clientId (take 1 (connectedActingHosts r (a # ids)))"
        using n(2) Some isSceneChange_packet [of r c]
        by (simp add: sceneChangeRecipients_def connectedActingHosts_def sendPacket_frame)
      ultimately show ?thesis using True by auto
    next
      case False
      let ?r1 = "updateHostForClient L r a (Some c)"
      from updateHostForClient_sent [of L r a "Some c" "code r"] obtain n1 where
        n1: "sent ?r1 = sent r @ n1" "filter (isSceneChange (code r)) n1 = []" by blast
      have fr: "code ?r1 = code r" "connections ?r1 = connections r"
        "finishedActingHostTransactionRoutine ?r1 = finishedActingHostTransactionRoutine r"
        by (simp_all add: updateHostForClient_frame)
      from Cons.IH [of ?r1 flag] obtain news where
        n: "sent (checkNameLoop L ?r1 ids flag) = sent ?r1 @ news"
           "sceneChangeRecipients (code ?r1) news =
             (if finishedActingHostTransactionRoutine ?r1 \<or> flag then []
              else map clientId (take 1 (connectedActingHosts ?r1 ids)))" by blast
      have "sent (checkNameLoop L r (a # ids) flag) = sent r @ (n1 @ news)"
        using Some False n(1) n1(1) by auto
      moreover have "sceneChangeRecipients (code r) (n1 @ news) = []"
        using n(2) n1(2) False fr by (auto simp add: sceneChangeRecipients_def)
      ultimately show ?thesis using False by auto
    qed
  qed
qed

lemma checkNameLoop_exact:
  assumes "list_all (ownPlayer r) ids"
  shows "sent (checkNameLoop L r ids flag) =
     sent r @ handshakePacketsOf L r (finishedActingHostTransactionRoutine r \<or> flag)
                (connectedActingHosts r ids)"
  using assms
proof (induction ids arbitrary: r flag)
  case Nil
  then show ?case by (simp add: handshakePacketsOf_def connectedActingHosts_def)
next
  case (Cons a ids)
  from Cons.prems have own: "ownPlayer r a" and rest: "list_all (ownPlayer r) ids"
    by simp_all
  show ?case
  proof (cases "map_get (connections r) a")
    case None
    then show ?thesis using Cons.IH [OF rest, of flag] by (simp add: connectedActingHosts_def)
  next
    case (Some c)
    have cah: "connectedActingHosts r (a # ids) = c # connectedActingHosts r ids"
      using Some by (simp add: connectedActingHosts_def)
    show ?thesis
    proof (cases "\<not> finishedActingHostTransactionRoutine r \<and> \<not> flag")
      case True
      let ?r1 = "sendPacket r c (sceneChangePacket r c)"
      have fr: "code ?r1 = code r" "connections ?r1 = connections r" "players ?r1 = players r"
        "finishedActingHostTransactionRoutine ?r1 = finishedActingHostTransactionRoutine r"
        by (simp_all add: sendPacket_frame)
      have "list_all (ownPlayer ?r1) ids"
        using rest by (simp add: ownPlayer_cong [OF fr(2) fr(3)])
      from Cons.IH [OF this, of True]
      have "sent (checkNameLoop L ?r1 ids True) =
          sent r @ (clientId c, sceneChangePacket r c)
            # handshakePacketsOf L r True (connectedActingHosts r ids)"
        by (simp add: sendPacket_frame handshakePacketsOf_cong [OF fr(1)]
            connectedActingHosts_cong [OF fr(2)])
      then show ?thesis
        using Some True unfolding cah by (simp add: handshakePacketsOf_def)
    next
      case False
      let ?r1 = "updateHostForClient L r a (Some c)"
      have fr: "code ?r1 = code r" "connections ?r1 = connections r" "players ?r1 = players r"
        "finishedActingHostTransactionRoutine ?r1 = finishedActingHostTransactionRoutine r"
        by (simp_all add: updateHostForClient_frame)
      have "list_all (ownPlayer ?r1) ids"
        using rest by (simp add: ownPlayer_cong [OF fr(2) fr(3)])
      from Cons.IH [OF this, of flag]
      have "sent (checkNameLoop L ?r1 ids flag) =
          sent r @ hostUpdatePackets L (code r) c
            @ handshakePacketsOf L r True (connectedActingHosts r ids)"
        using False
        by (simp add: updateHostForClient_exact [OF Some own] fr(4)
            handshakePacketsOf_cong [OF fr(1)] connectedActingHosts_cong [OF fr(2)])
      then show ?thesis
        using Some False unfolding cah by (auto simp add: handshakePacketsOf_def)
    qed
  qed
qed

text \<open>
  C4, as the code has it. When the CheckName of the first player in actingHostWaitingFor
  arrives while acting hosts are enabled, actingHostWaitingFor becomes empty and
  finishedActingHostTransactionRoutine keeps its value (the listener reads it and never
  writes it; the once-only latch is the local flag). Among the packets the listener sends,
  the JoinGame(Temp) + GameDataTo(SceneChange("OnlineGame")) pair goes to exactly one
  recipient, the first acting host that has a connection, and only when
  finishedActingHostTransactionRoutine is false. When every connected acting host is
  registered under its own client id and has a player of that id, the packets sent are
  exactly those of \<open>handshakePackets\<close>, in this order: with
  finishedActingHostTransactionRoutine false, the pair to the first connected acting host
  and nothing else to it, then for each later connected acting host whose
  ClientBroadcastEvent is not canceled one packet JoinGame(Temp) + RemovePlayer(Temp)
  naming the recipient as host, after any game data the event added; with it true, no
  pair and that packet for every connected acting host.
\<close>

theorem onPlayerCheckName_handshake:
  assumes "actingHostWaitingFor r = player # waiting" and "actingHostsEnabled r"
  shows "actingHostWaitingFor (onPlayerCheckName L r player) = []
    \<and> finishedActingHostTransactionRoutine (onPlayerCheckName L r player)
        = finishedActingHostTransactionRoutine r
    \<and> (\<exists>news. sent (onPlayerCheckName L r player) = sent r @ news \<and>
          sceneChangeRecipients (code r) news =
            (if finishedActingHostTransactionRoutine r then []
             else map clientId (take 1 (connectedActingHosts r (actingHostIds r)))))
    \<and> (actingHostsHavePlayers r \<longrightarrow>
          sent (onPlayerCheckName L r player) = sent r @ handshakePackets L r)"
proof -
  have eq: "onPlayerCheckName L r player =
      (checkNameLoop L r (actingHostIds r) False)\<lparr>actingHostWaitingFor := []\<rparr>"
    using assms by (simp add: onPlayerCheckName_def)
  have c1: "actingHostWaitingFor (onPlayerCheckName L r player) = []"
    unfolding eq by simp
  have c2: "finishedActingHostTransactionRoutine (onPlayerCheckName L r player)
        = finishedActingHostTransactionRoutine r"
    unfolding eq by (simp add: checkNameLoop_frame)
  have c3: "\<exists>news. sent (onPlayerCheckName L r player) = sent r @ news \<and>
          sceneChangeRecipients (code r) news =
            (if finishedActingHostTransactionRoutine r then []
             else map clientId (take 1 (connectedActingHosts r (actingHostIds r))))"
    using checkNameLoop_sent [of L r "actingHostIds r" False] unfolding eq by simp
  have c4: "actingHostsHavePlayers r \<longrightarrow>
          sent (onPlayerCheckName L r player) = sent r @ handshakePackets L r"
    unfolding eq by (simp add: actingHostsHavePlayers_def handshakePackets_def checkNameLoop_exact)
  from c1 c2 c3 c4 show ?thesis by (intro conjI)
qed

text \<open>
  The theorem at a room whose host has finished its handshake: both acting hosts are sent
  the host view update and no scene change.
\<close>

theorem onPlayerCheckName_handshake_witness:
  "actingHostWaitingFor latchedRoom = [9] \<and> actingHostsEnabled latchedRoom
   \<and> actingHostsHavePlayers latchedRoom
   \<and> actingHostWaitingFor (onPlayerCheckName quiet latchedRoom 9) = []
   \<and> sent (onPlayerCheckName quiet latchedRoom 9) =
       [(7, ReliablePacket [JoinGameMessage 32 Temp 7, RemovePlayerMessage 32 Temp Error 7]),
        (8, ReliablePacket [JoinGameMessage 32 Temp 8, RemovePlayerMessage 32 Temp Error 8])]"
proof -
  have h1: "actingHostWaitingFor latchedRoom = [9]"
    by (simp add: latchedRoom_def handshakeRoom_def)
  have h2: "actingHostsEnabled latchedRoom"
    by (simp add: latchedRoom_def handshakeRoom_def lobby_def newRoom_def)
  have h3: "actingHostsHavePlayers latchedRoom"
    by (simp add: actingHostsHavePlayers_def ownPlayer_def latchedRoom_def handshakeRoom_def
        lobby_def newRoom_def map_get_def conn_def person_def)
  have v: "sent latchedRoom = []"
    "handshakePackets quiet latchedRoom =
       [(7, ReliablePacket [JoinGameMessage 32 Temp 7, RemovePlayerMessage 32 Temp Error 7]),
        (8, ReliablePacket [JoinGameMessage 32 Temp 8, RemovePlayerMessage 32 Temp Error 8])]"
    by (simp_all add: handshakePackets_def handshakePacketsOf_def hostUpdatePackets_def
        connectedActingHosts_def latchedRoom_def handshakeRoom_def lobby_def newRoom_def
        map_get_def conn_def quiet_def Let_def)
  note t = onPlayerCheckName_handshake [OF h1 h2, of quiet]
  from t [THEN conjunct1]
    t [THEN conjunct2, THEN conjunct2, THEN conjunct2, rule_format, OF h3] h1 h2 h3
  show ?thesis
    by (simp add: v)
qed

text \<open>
  The claim as stated fails with two acting hosts: the second one, client 8, is never sent
  the scene change pair but only a host view update, the first one is sent the pair and
  no host view update, and finishedActingHostTransactionRoutine is still false afterwards.
\<close>

theorem onPlayerCheckName_second_acting_host_counterexample:
  "sent (onPlayerCheckName quiet handshakeRoom 9) =
     [(7, ReliablePacket [JoinGameMessage 32 Temp 7,
            GameDataToMessage 32 7 [SceneChangeMessage Temp ''OnlineGame'']]),
      (8, ReliablePacket [JoinGameMessage 32 Temp 8, RemovePlayerMessage 32 Temp Error 8])]
   \<and> \<not> finishedActingHostTransactionRoutine (onPlayerCheckName quiet handshakeRoom 9)"
  by (simp add: onPlayerCheckName_def handshakeRoom_def lobby_def newRoom_def conn_def person_def
      quiet_def map_get_def sendPacket_def sceneChangePacket_def updateHostForClient_def
      broadcast_def getPlayer_def getConnection_def broadcastMessages_def clientsToBroadcast_def
      deliver_def emit_def mkPacket_def Let_def)

section \<open>The anti-cheat gate: ownership\<close>

lemmas ex_defs = guarded_def services_def netobject_def lobby_def newRoom_def conn_def person_def
  rpcOf_def map_get_def


lemma flushPlayerInfractions_room: "room (flushPlayerInfractions E p) = room p"
  by (simp add: flushPlayerInfractions_def)

lemma createInfraction_room: "room (fst (createInfraction E p who iname details sev)) = room p"
  by (simp add: createInfraction_def Let_def flushPlayerInfractions_room
      split: option.splits sum.splits)

lemma createInfraction_severity:
  "snd (createInfraction E p who iname details sev) = Some i \<Longrightarrow> severity i = sev \<and> infractionName i = iname"
  by (auto simp add: createInfraction_def Let_def split: option.splits sum.splits if_splits)

lemma createInfraction_recorded:
  assumes "getPlayer (room p) s = Some pl" and "\<not> exempt E pl iname"
    and "getConnectionUser E s = Some u" and "sev \<noteq> Low"
  shows "createInfraction E p (Inr s) iname details sev =
           (p\<lparr>unflushedPlayerInfractions :=
                unflushedPlayerInfractions p @ [infractionOf E u s iname details sev]\<rparr>,
            Some (infractionOf E u s iname details sev))"
  using assms by (simp add: createInfraction_def Let_def exempt_def infractionOf_def)

lemma onRpcMessageData_room: "room (fst (onRpcMessageData E p c m s)) = room p"
  by (simp add: onRpcMessageData_def createInfraction_room split: option.splits prod.splits)

lemma HandleRpc_handled:
  "handled (room (HandleRpc p c m)) = handled (room p) @ [(netId c, m)]"
  by (simp add: HandleRpc_def)

text \<open>
  C1, as the code has it. For an inbound RPC that is not the host's initial SyncSettings,
  whose net id resolves to a component and whose sender is known: HandleRpc is invoked
  only if the component's owner id equals the sender's client id and is not -1. When the
  owner id is -1 or differs from the sender's client id, the handler does exactly the call
  of createInfraction for a Critical ForbiddenRpcInnernetObject and nothing else: the room,
  and with it every component and the log of HandleRpc calls, is unchanged, and the
  infraction is appended to the buffer when the sender has a player whose role is not
  exempt and is logged in.
\<close>

theorem onRpcMessage_ownership:
  assumes "\<not> initialSyncSettings p rpc (Some s)"
    and "map_get (netobjects (room p)) netid = Some component"
  shows "(handled (room (onRpcMessage E p netid rpc (Some s))) \<noteq> handled (room p)
            \<longrightarrow> ownerId component = clientId s \<and> ownerId component \<noteq> - 1)
     \<and> (ownerId component = - 1 \<or> ownerId component \<noteq> clientId s \<longrightarrow>
          onRpcMessage E p netid rpc (Some s) =
            fst (createInfraction E p (Inr s) ForbiddenRpcInnernetObject
                   [(''netId'', DNat netid), (''rpcId'', DTag (messageTag rpc))] Critical)
          \<and> room (onRpcMessage E p netid rpc (Some s)) = room p
          \<and> (\<forall>pl u. getPlayer (room p) s = Some pl \<and> \<not> exempt E pl ForbiddenRpcInnernetObject
                    \<and> getConnectionUser E s = Some u \<longrightarrow>
                unflushedPlayerInfractions (onRpcMessage E p netid rpc (Some s)) =
                  unflushedPlayerInfractions p @
                    [infractionOf E u s ForbiddenRpcInnernetObject
                       [(''netId'', DNat netid), (''rpcId'', DTag (messageTag rpc))] Critical]))"
proof -
  let ?fail = "ownerId component = - 1 \<or> ownerId component \<noteq> clientId s"
  let ?ci = "createInfraction E p (Inr s) ForbiddenRpcInnernetObject
                   [(''netId'', DNat netid), (''rpcId'', DTag (messageTag rpc))] Critical"
  have f: "?fail \<Longrightarrow> onRpcMessage E p netid rpc (Some s) = fst ?ci"
    using assms by (simp add: onRpcMessage_def)
  have a: "?fail \<Longrightarrow> room (onRpcMessage E p netid rpc (Some s)) = room p"
    using f by (simp add: createInfraction_room)
  have b: "?fail \<Longrightarrow> getPlayer (room p) s = Some pl \<Longrightarrow> \<not> exempt E pl ForbiddenRpcInnernetObject
        \<Longrightarrow> getConnectionUser E s = Some u \<Longrightarrow>
        unflushedPlayerInfractions (onRpcMessage E p netid rpc (Some s)) =
                  unflushedPlayerInfractions p @
                    [infractionOf E u s ForbiddenRpcInnernetObject
                       [(''netId'', DNat netid), (''rpcId'', DTag (messageTag rpc))] Critical]" for pl u
    using f by (simp add: createInfraction_recorded)
  have c: "?fail \<Longrightarrow> handled (room (onRpcMessage E p netid rpc (Some s))) = handled (room p)"
    using a by simp
  have first: "handled (room (onRpcMessage E p netid rpc (Some s))) \<noteq> handled (room p)
            \<longrightarrow> ownerId component = clientId s \<and> ownerId component \<noteq> - 1"
    using c by blast
  have second: "?fail \<longrightarrow>
          onRpcMessage E p netid rpc (Some s) = fst ?ci
          \<and> room (onRpcMessage E p netid rpc (Some s)) = room p
          \<and> (\<forall>pl u. getPlayer (room p) s = Some pl \<and> \<not> exempt E pl ForbiddenRpcInnernetObject
                    \<and> getConnectionUser E s = Some u \<longrightarrow>
                unflushedPlayerInfractions (onRpcMessage E p netid rpc (Some s)) =
                  unflushedPlayerInfractions p @
                    [infractionOf E u s ForbiddenRpcInnernetObject
                       [(''netId'', DNat netid), (''rpcId'', DTag (messageTag rpc))] Critical])"
  proof (intro impI conjI allI)
    assume h: ?fail
    show "onRpcMessage E p netid rpc (Some s) = fst ?ci" using h by (rule f)
    show "room (onRpcMessage E p netid rpc (Some s)) = room p" using h by (rule a)
    fix pl u
    assume "getPlayer (room p) s = Some pl \<and> \<not> exempt E pl ForbiddenRpcInnernetObject
                    \<and> getConnectionUser E s = Some u"
    then show "unflushedPlayerInfractions (onRpcMessage E p netid rpc (Some s)) =
                  unflushedPlayerInfractions p @
                    [infractionOf E u s ForbiddenRpcInnernetObject
                       [(''netId'', DNat netid), (''rpcId'', DTag (messageTag rpc))] Critical]"
      using b [OF h] by blast
  qed
  from first second show ?thesis by (rule conjI)
qed


theorem onRpcMessage_ownership_witness:
  "\<not> initialSyncSettings guarded (rpcOf SetScanner) (Some (conn 8))
   \<and> map_get (netobjects (room guarded)) 2 = Some (snd (netobject 2 7 SpawnPlayer PlayerControl))
   \<and> room (onRpcMessage services guarded 2 (rpcOf SetScanner) (Some (conn 8))) = room guarded"
proof -
  have h1: "\<not> initialSyncSettings guarded (rpcOf SetScanner) (Some (conn 8))"
    by (simp add: initialSyncSettings_def ex_defs)
  have h2: "map_get (netobjects (room guarded)) 2 = Some (snd (netobject 2 7 SpawnPlayer PlayerControl))"
    by (simp add: ex_defs)
  have h3: "ownerId (snd (netobject 2 7 SpawnPlayer PlayerControl)) = - 1
            \<or> ownerId (snd (netobject 2 7 SpawnPlayer PlayerControl)) \<noteq> clientId (conn 8)"
    by (simp add: ex_defs)
  from onRpcMessage_ownership [OF h1 h2, of services, THEN conjunct2, rule_format, OF h3] h1 h2
  show ?thesis by blast
qed

text \<open>
  The claim as stated fails for a component whose owner id is -1: an RPC on it is not
  applied, and the sender gets the Critical ForbiddenRpcInnernetObject infraction.
\<close>

theorem onRpcMessage_owner_minus_one_counterexample:
  "handled (room (onRpcMessage services guarded 1 (rpcOf SetScanner) (Some (conn 7)))) = []
   \<and> unflushedPlayerInfractions (onRpcMessage services guarded 1 (rpcOf SetScanner) (Some (conn 7)))
       = [\<lparr>userId = ''user'', gameId = Some ''game'', playerPing = 40,
           infractionName = ForbiddenRpcInnernetObject,
           additionalDetails = [(''netId'', DNat 1), (''rpcId'', DTag SetScanner)],
           severity = Critical\<rparr>]"
  by (simp add: onRpcMessage_def initialSyncSettings_def host_def ex_defs createInfraction_def
       getPlayer_def Let_def)

section \<open>The anti-cheat gate: severities\<close>

text \<open>
  C2, as the code has it. For an inbound RPC on a component owned by its sender, the
  handler returns before HandleRpc exactly when onRpcMessageData returns an infraction
  of severity Critical. When it returns no infraction or an infraction of any other
  severity (High, Medium or Low), HandleRpc is invoked on the component with the RPC.
\<close>

theorem onRpcMessage_severity_gate:
  assumes "\<not> initialSyncSettings p rpc (Some s)"
    and "map_get (netobjects (room p)) netid = Some c"
    and "ownerId c = clientId s" and "ownerId c \<noteq> - 1"
  shows "(suppresses (snd (onRpcMessageData E p c rpc s)) \<longrightarrow>
            onRpcMessage E p netid rpc (Some s) = fst (onRpcMessageData E p c rpc s)
            \<and> handled (room (onRpcMessage E p netid rpc (Some s))) = handled (room p))
       \<and> (\<not> suppresses (snd (onRpcMessageData E p c rpc s)) \<longrightarrow>
            onRpcMessage E p netid rpc (Some s) = HandleRpc (fst (onRpcMessageData E p c rpc s)) c rpc
            \<and> handled (room (onRpcMessage E p netid rpc (Some s))) = handled (room p) @ [(netId c, rpc)])
       \<and> (\<forall>i. snd (onRpcMessageData E p c rpc s) = Some i \<longrightarrow>
             suppresses (Some i) = (severity i \<notin> {High, Medium, Low}))"
proof -
  have eq: "onRpcMessage E p netid rpc (Some s) =
      (if suppresses (snd (onRpcMessageData E p c rpc s)) then fst (onRpcMessageData E p c rpc s)
       else HandleRpc (fst (onRpcMessageData E p c rpc s)) c rpc)"
    using assms by (simp add: onRpcMessage_def Let_def suppresses_def)
  have sev: "suppresses (Some i) = (severity i \<notin> {High, Medium, Low})" for i
    by (cases "severity i") (simp_all add: suppresses_def)
  show ?thesis
    unfolding eq using sev
    by (simp add: onRpcMessageData_room HandleRpc_handled)
qed

theorem onRpcMessage_severity_gate_witness:
  "\<not> initialSyncSettings guarded (rpcOf EnterVent) (Some (conn 7))
   \<and> map_get (netobjects (room guarded)) 2 = Some (snd (netobject 2 7 SpawnPlayer PlayerControl))
   \<and> recordedAs (snd (onRpcMessageData services guarded
          (snd (netobject 2 7 SpawnPlayer PlayerControl)) (rpcOf EnterVent) (conn 7)))
        = Some (ForbiddenRpcVent, High)
   \<and> handled (room (onRpcMessage services guarded 2 (rpcOf EnterVent) (Some (conn 7))))
        = handled (room guarded) @ [(2, rpcOf EnterVent)]"
proof -
  let ?c = "snd (netobject 2 7 SpawnPlayer PlayerControl)"
  have h1: "\<not> initialSyncSettings guarded (rpcOf EnterVent) (Some (conn 7))"
    by (simp add: initialSyncSettings_def ex_defs)
  have h2: "map_get (netobjects (room guarded)) 2 = Some ?c"
    by (simp add: ex_defs)
  have h3: "ownerId ?c = clientId (conn 7)" and h4: "ownerId ?c \<noteq> - 1"
    by (simp_all add: ex_defs)
  have v: "snd (onRpcMessageData services guarded ?c (rpcOf EnterVent) (conn 7)) =
      Some \<lparr>userId = ''user'', gameId = Some ''game'', playerPing = 40,
         infractionName = ForbiddenRpcVent, additionalDetails = [(''ventId'', DUndefined)],
         severity = High\<rparr>"
    by (simp add: ex_defs createInfraction_def getPlayer_def Let_def onRpcMessageData_def
        verdict_def firstSwitch_def optNat_def)
  have n: "\<not> suppresses (snd (onRpcMessageData services guarded ?c (rpcOf EnterVent) (conn 7)))"
    unfolding v by (simp add: suppresses_def)
  have id: "netId ?c = 2" by (simp add: ex_defs)
  from onRpcMessage_severity_gate [OF h1 h2 h3 h4, of services, THEN conjunct2, THEN conjunct1,
      rule_format, OF n]
  have "handled (room (onRpcMessage services guarded 2 (rpcOf EnterVent) (Some (conn 7))))
        = handled (room guarded) @ [(2, rpcOf EnterVent)]"
    unfolding id by (rule conjunct2)
  moreover have "recordedAs (snd (onRpcMessageData services guarded ?c (rpcOf EnterVent) (conn 7)))
        = Some (ForbiddenRpcVent, High)"
    unfolding v by (simp add: recordedAs_def)
  ultimately show ?thesis using h1 h2 by blast
qed

text \<open>
  The claim as stated fails for a duplicate vote: client 7, who has already voted, sends
  CastVote on a meeting component it owns; the High DuplicateRpcMeetingVote infraction is
  recorded and HandleRpc is invoked all the same.
\<close>

theorem onRpcMessage_duplicate_vote_counterexample:
  "handled (room (onRpcMessage services guarded 3 (CastVoteMessage 7 8) (Some (conn 7))))
     = [(3, CastVoteMessage 7 8)]
   \<and> unflushedPlayerInfractions (onRpcMessage services guarded 3 (CastVoteMessage 7 8) (Some (conn 7)))
     = [\<lparr>userId = ''user'', gameId = Some ''game'', playerPing = 40,
         infractionName = DuplicateRpcMeetingVote,
         additionalDetails = [(''voterPlayerId'', DNat 7), (''suspectPlayerId'', DNat 8),
                              (''alreadyVotedForPlayerId'', DNat 8)],
         severity = High\<rparr>]"
  by (simp add: onRpcMessage_def initialSyncSettings_def host_def ex_defs CastVoteMessage_def createInfraction_def
       getPlayer_def Let_def onRpcMessageData_def verdict_def firstSwitch_def caseCastVote_def
       getPlayerByPlayerId_def voterStateOf_def meetingHud_def findComponent_def
       voteDetails_def optNat_def HandleRpc_def)

section \<open>Voting RPCs\<close>

lemma onRpcMessageData_recorded:
  assumes "getPlayer (room p) s = Some pl" and "\<not> exempt E pl iname"
    and "getConnectionUser E s = Some u"
    and "firstSwitch E (room p) c m s = Infract iname details sev" and "sev \<noteq> Low"
  shows "onRpcMessageData E p c m s = records E p u s iname details sev"
  using createInfraction_recorded [OF assms(1) assms(2) assms(3) assms(5)] assms(4)
  by (simp add: onRpcMessageData_def verdict_def records_def)

text \<open>
  C6, as the code has it. For a CastVote RPC from a logged-in sender that has a player,
  each violation whose infraction the player's role does not exempt is recorded, that is
  appended to the buffer and returned, with these severities: a voting id that is no
  player's slot gives a High ForbiddenRpcMeetingVote; a voter that is a player of another
  client gives a Critical ForbiddenRpcMeetingVote; for the sender's own player, when the
  meeting has a vote state for it, a voter that has already voted gives a High
  DuplicateRpcMeetingVote, and otherwise a dead suspect, or a suspect id other than 255
  that is no player's slot, gives a High InvalidRpcMeetingVote. When there is no vote
  state for the voter nothing is recorded and the plugin is unchanged.
\<close>

theorem castVote_severities:
  assumes tag: "messageTag m = CastVote"
    and pl: "getPlayer (room p) s = Some pl"
    and user: "getConnectionUser E s = Some u"
  shows "(getPlayerByPlayerId (room p) (votingid m) = None
            \<and> \<not> exempt E pl ForbiddenRpcMeetingVote \<longrightarrow>
            onRpcMessageData E p c m s =
              records E p u s ForbiddenRpcMeetingVote (voteDetails m) High)
     \<and> (\<forall>voter. getPlayerByPlayerId (room p) (votingid m) = Some voter
            \<and> pd_clientId voter \<noteq> clientId s \<and> \<not> exempt E pl ForbiddenRpcMeetingVote \<longrightarrow>
            onRpcMessageData E p c m s =
              records E p u s ForbiddenRpcMeetingVote (voteDetails m) Critical)
     \<and> (\<forall>voter voterState. getPlayerByPlayerId (room p) (votingid m) = Some voter
            \<and> pd_clientId voter = clientId s \<and> voterStateOf (room p) m = Some voterState \<longrightarrow>
            (hasVoted voterState \<and> \<not> exempt E pl DuplicateRpcMeetingVote \<longrightarrow>
               onRpcMessageData E p c m s =
                 records E p u s DuplicateRpcMeetingVote
                   (voteDetails m @ [(''alreadyVotedForPlayerId'', DNat (votedForId voterState))])
                   High)
          \<and> (\<not> hasVoted voterState \<and> \<not> exempt E pl InvalidRpcMeetingVote \<longrightarrow>
               (\<forall>suspect. getPlayerByPlayerId (room p) (suspectid m) = Some suspect
                    \<and> isDead suspect = Some True \<longrightarrow>
                  onRpcMessageData E p c m s =
                    records E p u s InvalidRpcMeetingVote
                      (voteDetails m @ [(''isDead'', DBool True)]) High)
             \<and> (getPlayerByPlayerId (room p) (suspectid m) = None \<and> suspectid m \<noteq> Some 255 \<longrightarrow>
                  onRpcMessageData E p c m s =
                    records E p u s InvalidRpcMeetingVote
                      (voteDetails m @ [(''isDead'', DBool False)]) High)))
     \<and> (\<forall>voter. getPlayerByPlayerId (room p) (votingid m) = Some voter
            \<and> pd_clientId voter = clientId s \<and> voterStateOf (room p) m = None \<longrightarrow>
            onRpcMessageData E p c m s = (p, None))"
proof -
  have fs: "firstSwitch E (room p) c m s = caseCastVote (room p) m s"
    using tag by (simp add: firstSwitch_def)
  have r: "onRpcMessageData E p c m s = records E p u s iname details sev"
    if "caseCastVote (room p) m s = Infract iname details sev" and "sev \<noteq> Low"
      and "\<not> exempt E pl iname" for iname details sev
    by (rule onRpcMessageData_recorded [OF pl that(3) user _ that(2)]) (simp add: fs that(1))
  have a: "getPlayerByPlayerId (room p) (votingid m) = None \<Longrightarrow>
            \<not> exempt E pl ForbiddenRpcMeetingVote \<Longrightarrow>
            onRpcMessageData E p c m s =
              records E p u s ForbiddenRpcMeetingVote (voteDetails m) High"
    by (rule r) (simp_all add: caseCastVote_def)
  have b: "getPlayerByPlayerId (room p) (votingid m) = Some voter \<Longrightarrow>
            pd_clientId voter \<noteq> clientId s \<Longrightarrow> \<not> exempt E pl ForbiddenRpcMeetingVote \<Longrightarrow>
            onRpcMessageData E p c m s =
              records E p u s ForbiddenRpcMeetingVote (voteDetails m) Critical" for voter
    by (rule r) (simp_all add: caseCastVote_def)
  have c: "getPlayerByPlayerId (room p) (votingid m) = Some voter \<Longrightarrow>
            pd_clientId voter = clientId s \<Longrightarrow> voterStateOf (room p) m = Some voterState \<Longrightarrow>
            hasVoted voterState \<Longrightarrow> \<not> exempt E pl DuplicateRpcMeetingVote \<Longrightarrow>
            onRpcMessageData E p c m s =
                 records E p u s DuplicateRpcMeetingVote
                   (voteDetails m @ [(''alreadyVotedForPlayerId'', DNat (votedForId voterState))])
                   High"
    for voter voterState
    by (rule r) (simp_all add: caseCastVote_def)
  have d: "getPlayerByPlayerId (room p) (votingid m) = Some voter \<Longrightarrow>
            pd_clientId voter = clientId s \<Longrightarrow> voterStateOf (room p) m = Some voterState \<Longrightarrow>
            \<not> hasVoted voterState \<Longrightarrow> \<not> exempt E pl InvalidRpcMeetingVote \<Longrightarrow>
            getPlayerByPlayerId (room p) (suspectid m) = Some suspect \<Longrightarrow> isDead suspect = Some True \<Longrightarrow>
            onRpcMessageData E p c m s =
                    records E p u s InvalidRpcMeetingVote
                      (voteDetails m @ [(''isDead'', DBool True)]) High"
    for voter voterState suspect
    by (rule r) (simp_all add: caseCastVote_def)
  have e: "getPlayerByPlayerId (room p) (votingid m) = Some voter \<Longrightarrow>
            pd_clientId voter = clientId s \<Longrightarrow> voterStateOf (room p) m = Some voterState \<Longrightarrow>
            \<not> hasVoted voterState \<Longrightarrow> \<not> exempt E pl InvalidRpcMeetingVote \<Longrightarrow>
            getPlayerByPlayerId (room p) (suspectid m) = None \<Longrightarrow> suspectid m \<noteq> Some 255 \<Longrightarrow>
            onRpcMessageData E p c m s =
                    records E p u s InvalidRpcMeetingVote
                      (voteDetails m @ [(''isDead'', DBool False)]) High"
    for voter voterState
    by (rule r) (simp_all add: caseCastVote_def)
  have f: "getPlayerByPlayerId (room p) (votingid m) = Some voter \<Longrightarrow>
            pd_clientId voter = clientId s \<Longrightarrow> voterStateOf (room p) m = None \<Longrightarrow>
            onRpcMessageData E p c m s = (p, None)" for voter
    by (simp add: onRpcMessageData_def verdict_def fs caseCastVote_def)
  from a b c d e f show ?thesis by blast
qed

text \<open>
  The theorem at a duplicate vote: client 7, whose player has already voted, sends
  CastVote; the buffer, empty before, holds the High DuplicateRpcMeetingVote afterwards.
\<close>

theorem castVote_severities_witness:
  "messageTag (CastVoteMessage 7 8) = CastVote
   \<and> getPlayer (room guarded) (conn 7) = Some (person 7 7)
   \<and> unflushedPlayerInfractions (fst (onRpcMessageData services guarded
          (snd (netobject 3 7 SpawnMeetingHud MeetingHudC)) (CastVoteMessage 7 8) (conn 7)))
        = [\<lparr>userId = ''user'', gameId = Some ''game'', playerPing = 40,
            infractionName = DuplicateRpcMeetingVote,
            additionalDetails = [(''voterPlayerId'', DNat 7), (''suspectPlayerId'', DNat 8),
                                 (''alreadyVotedForPlayerId'', DNat 8)],
            severity = High\<rparr>]"
proof -
  let ?u = "\<lparr>user_id = ''user'', display_name = ''Alice'', owned_cosmetics = []\<rparr>"
  have h1: "messageTag (CastVoteMessage 7 8) = CastVote"
    by (simp add: ex_defs CastVoteMessage_def)
  have h2: "getPlayer (room guarded) (conn 7) = Some (person 7 7)"
    by (simp add: getPlayer_def ex_defs)
  have h4: "getConnectionUser services (conn 7) = Some ?u"
    by (simp add: services_def)
  have v: "getPlayerByPlayerId (room guarded) (votingid (CastVoteMessage 7 8)) = Some (person 7 7)
      \<and> pd_clientId (person 7 7) = clientId (conn 7)
      \<and> voterStateOf (room guarded) (CastVoteMessage 7 8) = Some \<lparr>hasVoted = True, votedForId = 8\<rparr>"
    by (simp add: getPlayerByPlayerId_def voterStateOf_def meetingHud_def findComponent_def
        ex_defs CastVoteMessage_def)
  have hv: "hasVoted \<lparr>hasVoted = True, votedForId = 8\<rparr>
      \<and> \<not> exempt services (person 7 7) DuplicateRpcMeetingVote"
    by (simp add: exempt_def services_def)
  from castVote_severities [OF h1 h2 h4, THEN conjunct2, THEN conjunct2, THEN conjunct1,
      rule_format, OF v, THEN conjunct1, rule_format, OF hv]
  have "unflushedPlayerInfractions (fst (onRpcMessageData services guarded
          (snd (netobject 3 7 SpawnMeetingHud MeetingHudC)) (CastVoteMessage 7 8) (conn 7)))
        = [\<lparr>userId = ''user'', gameId = Some ''game'', playerPing = 40,
            infractionName = DuplicateRpcMeetingVote,
            additionalDetails = [(''voterPlayerId'', DNat 7), (''suspectPlayerId'', DNat 8),
                                 (''alreadyVotedForPlayerId'', DNat 8)],
            severity = High\<rparr>]"
    by (simp add: records_def infractionOf_def voteDetails_def optNat_def ex_defs
        CastVoteMessage_def)
  with h1 h2 show ?thesis by blast
qed

text \<open>
  The claim as stated fails for a vote cast in the name of another client's player: client
  7 sends CastVote with the voting id of client 8's player, and the infraction appended to
  the buffer is Critical, not High.
\<close>

theorem castVote_other_voter_counterexample:
  "unflushedPlayerInfractions (fst (onRpcMessageData services guarded
       (snd (netobject 3 7 SpawnMeetingHud MeetingHudC)) (CastVoteMessage 8 7) (conn 7)))
     = [\<lparr>userId = ''user'', gameId = Some ''game'', playerPing = 40,
         infractionName = ForbiddenRpcMeetingVote,
         additionalDetails = [(''voterPlayerId'', DNat 8), (''suspectPlayerId'', DNat 7)],
         severity = Critical\<rparr>]"
  by (simp add: ex_defs CastVoteMessage_def createInfraction_def
       getPlayer_def Let_def onRpcMessageData_def verdict_def firstSwitch_def caseCastVote_def
       getPlayerByPlayerId_def voteDetails_def optNat_def)

section \<open>Cosmetic RPCs\<close>

text \<open>
  C7. The code at a valid SetHat: client 7, logged in, sends SetHat with hat 1, a member
  of the Hat enumeration, on its own PlayerControl. The case \<^verbatim>\<open>SetHat\<close> has no \<^verbatim>\<open>break\<close>
  and continues with the case \<^verbatim>\<open>SetPet\<close>, which reads the property \<^verbatim>\<open>pet\<close> of the SetHat
  message: it is undefined, neither in Pet nor owned, so a Critical InvalidRpcPet
  infraction is returned and the RPC is not applied.
\<close>

theorem setHat_falls_through_to_setPet:
  "snd (onRpcMessageData services guarded (snd (netobject 2 7 SpawnPlayer PlayerControl))
          (SetHatMessage 1) (conn 7))
     = Some \<lparr>userId = ''user'', gameId = Some ''game'', playerPing = 40,
         infractionName = InvalidRpcPet,
         additionalDetails = [(''petId'', DUndefined)],
         severity = Critical\<rparr>
   \<and> inHat services 1
   \<and> handled (room (onRpcMessage services guarded 2 (SetHatMessage 1) (Some (conn 7)))) = []"
  by (simp add: onRpcMessage_def initialSyncSettings_def host_def ex_defs SetHatMessage_def createInfraction_def
       getPlayer_def Let_def onRpcMessageData_def verdict_def firstSwitch_def caseSetHat_def
       caseSetPet_def inEnum_def notOwned_def optNat_def)

section \<open>Flushing the infraction buffer\<close>

lemma flushPlayerInfractions_flushes:
  assumes "metricsLoaded E" and "unflushedPlayerInfractions p \<noteq> []"
  shows "flushPlayerInfractions E p =
           p\<lparr>flushed := flushed p @ [map (\<lambda>i. (lobbyId E, i)) (unflushedPlayerInfractions p)],
              unflushedPlayerInfractions := []\<rparr>"
  using assms by (simp add: flushPlayerInfractions_def)

lemma onRoomGameEnd_flushes:
  assumes "metricsLoaded E" and "unflushedPlayerInfractions p \<noteq> []"
  shows "unflushedPlayerInfractions (onRoomGameEnd E p) = []
     \<and> flushed (onRoomGameEnd E p) =
           flushed p @ [map (\<lambda>i. (lobbyId E, i)) (unflushedPlayerInfractions p)]"
  using assms by (simp add: onRoomGameEnd_def flushPlayerInfractions_flushes)

lemma onRoomDestroy_flushes:
  assumes "metricsLoaded E" and "unflushedPlayerInfractions p \<noteq> []"
  shows "unflushedPlayerInfractions (onRoomDestroy E p) = []
     \<and> flushed (onRoomDestroy E p) =
           flushed p @ [map (\<lambda>i. (lobbyId E, i)) (unflushedPlayerInfractions p)]"
  using assms by (simp add: onRoomDestroy_def flushPlayerInfractions_flushes)

text \<open>
  C5. The code at a buffer of 100 infractions: appending a High infraction leaves 101
  infractions in the buffer and nothing in the sink, because \<^verbatim>\<open>createInfraction\<close> returns
  at line 203 for every severity other than Low, before the test of the buffer length;
  appending a Low infraction to the same buffer flushes it.
\<close>

theorem createInfraction_threshold_skipped:
  "unflushedPlayerInfractions
      (fst (createInfraction services nearlyFull (Inr (conn 7)) ForbiddenRpcVent
              [(''ventId'', DNat 0)] High))
     = replicate 100 entry @
         [\<lparr>userId = ''user'', gameId = Some ''game'', playerPing = 40,
           infractionName = ForbiddenRpcVent, additionalDetails = [(''ventId'', DNat 0)],
           severity = High\<rparr>]
   \<and> flushed (fst (createInfraction services nearlyFull (Inr (conn 7)) ForbiddenRpcVent
              [(''ventId'', DNat 0)] High)) = []
   \<and> flushed (fst (createInfraction services nearlyFull (Inr (conn 7)) ForbiddenRpcVent
              [(''ventId'', DNat 0)] Low)) \<noteq> []"
  by (simp add: createInfraction_def nearlyFull_def ex_defs getPlayer_def Let_def
      flushPlayerInfractions_def)

end
